theory Spec2Isabelle
  imports Complex_Main
begin

section \<open>Python values and sequences\<close>

text \<open>
  The exceptions the modelled code can raise. Operations that mutate an object before
  they raise return the state they leave behind together with the error, so every
  mutating operation has the type \<open>(error + result) \<times> state\<close>.
\<close>

datatype error = AssertionError | IndexError | TypeError | AttributeError | KeyError
  | RuntimeError | NotANumber

text \<open>
  \<open>xs[i]\<close> for a Python sequence of length \<open>n\<close>: indices \<open>-n .. -1\<close> count from the end,
  anything outside \<open>-n .. n-1\<close> raises IndexError. \<open>py_position n i\<close> is the position read.
\<close>

definition py_position :: "nat \<Rightarrow> int \<Rightarrow> nat option" where
  "py_position n i =
     (if 0 \<le> i \<and> i < int n then Some (nat i)
      else if - int n \<le> i \<and> i < 0 then Some (nat (int n + i))
      else None)"

text \<open>A slice bound of \<open>xs[a:b]\<close>: negative bounds count from the end, and all bounds are clamped.\<close>

definition py_bound :: "nat \<Rightarrow> int \<Rightarrow> nat" where
  "py_bound n i = (if i < 0 then nat (max 0 (int n + i)) else min (nat i) n)"

definition py_slice :: "'a list \<Rightarrow> int \<Rightarrow> int \<Rightarrow> 'a list" where
  "py_slice xs a b = take (py_bound (length xs) b - py_bound (length xs) a)
                          (drop (py_bound (length xs) a) xs)"

definition py_slice_to :: "'a list \<Rightarrow> int \<Rightarrow> 'a list" where
  "py_slice_to xs b = take (py_bound (length xs) b) xs"

definition py_slice_from :: "'a list \<Rightarrow> int \<Rightarrow> 'a list" where
  "py_slice_from xs a = drop (py_bound (length xs) a) xs"

text \<open>\<open>list(map(f, xs))\<close> where \<open>f\<close> may raise: the first exception ends the evaluation.\<close>

fun map_raise :: "('a \<Rightarrow> error + 'b) \<Rightarrow> 'a list \<Rightarrow> error + 'b list" where
  "map_raise f [] = Inr []"
| "map_raise f (x # xs) =
     (case f x of Inl e \<Rightarrow> Inl e
      | Inr y \<Rightarrow> (case map_raise f xs of Inl e \<Rightarrow> Inl e | Inr ys \<Rightarrow> Inr (y # ys)))"

text \<open>
  Python's \<open>+\<close> with a list on the left and an int on the right: \<open>list.__add__\<close> accepts
  only another list, so the expression raises TypeError whatever the two values are.
\<close>

definition list_plus_int :: "int list \<Rightarrow> int \<Rightarrow> error + int list" where
  "list_plus_int x n = Inl TypeError"

section \<open>Tensors as lists of rows\<close>

text \<open>
  A node tensor is modelled by its rows along dimension 0, each row being the feature
  vector of one node; \<open>torch.tensor([])\<close> is the tensor without rows.
  \<open>torch.cat(ts, 0)\<close> joins the rows and raises when the remaining dimensions disagree;
  a tensor without rows imposes no shape.
\<close>

definition same_width :: "'a list list \<Rightarrow> bool" where
  "same_width rws = (case rws of [] \<Rightarrow> True | r # rs \<Rightarrow> list_all (\<lambda>s. length s = length r) rs)"

definition torch_cat0 :: "'a list list list \<Rightarrow> error + 'a list list" where
  "torch_cat0 ts = (if same_width (concat ts) then Inr (concat ts) else Inl RuntimeError)"

text \<open>
  \<open>torch.cat((a, b), 1)\<close>: both tensors need the same number of rows; row \<open>i\<close> of the
  result is row \<open>i\<close> of \<open>a\<close> followed by row \<open>i\<close> of \<open>b\<close>.
\<close>

definition torch_cat1 :: "'a list list \<Rightarrow> 'a list list \<Rightarrow> error + 'a list list" where
  "torch_cat1 a b =
     (if length a = length b then Inr (map (\<lambda>(r, s). r @ s) (zip a b)) else Inl RuntimeError)"

section \<open>NodeGraphTensor (torchsupport/modules/nodegraph.py)\<close>

text \<open>
  The fields \<open>_adjacency\<close> and \<open>_node_tensor\<close> of the class are \<open>u_adjacency\<close> and
  \<open>u_node_tensor\<close> here. Every row of the adjacency is a list object of its own, as
  \<open>add_node\<close> creates them, so a list of lists of indices models it.
\<close>

record 'a NodeGraphTensor =
  is_subgraph :: bool
  offset :: int
  num_graphs :: int
  graph_nodes :: "int list"
  u_adjacency :: "int list list"
  u_node_tensor :: "'a list list"

text \<open>\<open>NodeGraphTensor()\<close>: the constructor without a descriptor.\<close>

definition init :: "'a NodeGraphTensor" where
  "init = \<lparr> is_subgraph = False, offset = 0, num_graphs = 1, graph_nodes = [0],
            u_adjacency = [], u_node_tensor = [] \<rparr>"

definition nodes_including :: "('a, 'b) NodeGraphTensor_scheme \<Rightarrow> int \<Rightarrow> int" where
  "nodes_including g graph_index = sum_list (py_slice_to (graph_nodes g) (graph_index + 1))"

definition view_start :: "('a, 'b) NodeGraphTensor_scheme \<Rightarrow> int" where
  "view_start g = (if offset g = 0 then 0 else nodes_including g (offset g - 1))"

definition view_stop :: "('a, 'b) NodeGraphTensor_scheme \<Rightarrow> int" where
  "view_stop g = nodes_including g (offset g)"

text \<open>The property \<open>adjacency\<close> (it has a getter and no setter).\<close>

definition adjacency :: "('a, 'b) NodeGraphTensor_scheme \<Rightarrow> int list list" where
  "adjacency g =
     (if is_subgraph g then py_slice (u_adjacency g) (view_start g) (view_stop g)
      else u_adjacency g)"

text \<open>
  The getter of the property \<open>node_tensor\<close> returns a tensor on one branch and the
  adjacency list on the other, so its result is a value of either kind.
\<close>

datatype 'a pyobject = AdjacencyList "int list list" | Tensor "'a list list"

definition node_tensor :: "('a, 'b) NodeGraphTensor_scheme \<Rightarrow> 'a pyobject" where
  "node_tensor g =
     (if is_subgraph g then Tensor (py_slice (u_node_tensor g) (view_start g) (view_stop g))
      else AdjacencyList (u_adjacency g))"

text \<open>
  \<open>self.adjacency[i]\<close> is a row object shared with \<open>_adjacency\<close> (a slice copies the
  outer list only). \<open>view_base g\<close> is the position in \<open>_adjacency\<close> at which the list
  returned by the getter starts, and \<open>adjacency_position g i\<close> the position in
  \<open>_adjacency\<close> of the row that \<open>self.adjacency[i]\<close> denotes, if the index is in range.
\<close>

definition view_base :: "('a, 'b) NodeGraphTensor_scheme \<Rightarrow> nat" where
  "view_base g =
     (if is_subgraph g then py_bound (length (u_adjacency g)) (view_start g) else 0)"

definition adjacency_position :: "('a, 'b) NodeGraphTensor_scheme \<Rightarrow> int \<Rightarrow> nat option" where
  "adjacency_position g i =
     (case py_position (length (adjacency g)) i of
        None \<Rightarrow> None
      | Some k \<Rightarrow> Some (view_base g + k))"

text \<open>\<open>self.adjacency[i].append(v)\<close>\<close>

definition adjacency_append ::
  "('a, 'b) NodeGraphTensor_scheme \<Rightarrow> int \<Rightarrow> int \<Rightarrow> error + ('a, 'b) NodeGraphTensor_scheme" where
  "adjacency_append g i v =
     (case adjacency_position g i of
        None \<Rightarrow> Inl IndexError
      | Some p \<Rightarrow> Inr (g\<lparr>u_adjacency := (u_adjacency g)[p := u_adjacency g ! p @ [v]]\<rparr>))"

definition add_node ::
  "('a, 'b) NodeGraphTensor_scheme \<Rightarrow> 'a list
   \<Rightarrow> (error + int) \<times> ('a, 'b) NodeGraphTensor_scheme" where
  "add_node g feature =
     (if num_graphs g \<noteq> 1 then (Inl AssertionError, g)
      else (case py_position (length (graph_nodes g)) (offset g) of
        None \<Rightarrow> (Inl IndexError, g)
      | Some k \<Rightarrow>
          (let g1 = g\<lparr>graph_nodes := (graph_nodes g)[k := graph_nodes g ! k + 1]\<rparr>;
               g2 = g1\<lparr>u_adjacency := u_adjacency g1 @ [[]]\<rparr>;
               n = nodes_including g2 (offset g2)
           in (case torch_cat0 [py_slice_to (u_node_tensor g2) n, [feature],
                                py_slice_from (u_node_tensor g2) n] of
                 Inl e \<Rightarrow> (Inl e, g2)
               | Inr t \<Rightarrow> (Inr (int (length t) - 1), g2\<lparr>u_node_tensor := t\<rparr>)))))"

definition add_edge ::
  "('a, 'b) NodeGraphTensor_scheme \<Rightarrow> int \<Rightarrow> int
   \<Rightarrow> (error + int) \<times> ('a, 'b) NodeGraphTensor_scheme" where
  "add_edge g source target =
     (case adjacency_append g source target of
        Inl e \<Rightarrow> (Inl e, g)
      | Inr g1 \<Rightarrow>
         (case adjacency_append g1 target source of
            Inl e \<Rightarrow> (Inl e, g1)
          | Inr g2 \<Rightarrow>
             (case py_position (length (adjacency g2)) source of
                None \<Rightarrow> (Inl IndexError, g2)
              | Some k \<Rightarrow> (Inr (int (length (adjacency g2 ! k)) - 1), g2))))"

text \<open>
  Storing through the property \<open>adjacency\<close>, which the augmented assignment
  \<open>self.adjacency += ...\<close> ends with: the class defines no setter for it, so the store
  raises AttributeError.
\<close>

definition set_adjacency ::
  "('a, 'b) NodeGraphTensor_scheme \<Rightarrow> int list list \<Rightarrow> error + ('a, 'b) NodeGraphTensor_scheme" where
  "set_adjacency g v = Inl AttributeError"

text \<open>\<open>torch.cat((a, b), 0)\<close> on what the \<open>node_tensor\<close> getters returned.\<close>

definition torch_cat0_objects :: "'a pyobject \<Rightarrow> 'a pyobject \<Rightarrow> error + 'a list list" where
  "torch_cat0_objects a b =
     (case a of AdjacencyList _ \<Rightarrow> Inl TypeError
      | Tensor s \<Rightarrow> (case b of AdjacencyList _ \<Rightarrow> Inl TypeError | Tensor t \<Rightarrow> torch_cat0 [s, t]))"

text \<open>
  \<open>append\<close>. The augmented assignment reads the property, evaluates the right-hand
  side, extends the list read in place (the list is \<open>_adjacency\<close> itself unless the
  batch is a sub-view, whose getter returns a fresh slice) and stores through the property.
\<close>

definition append_batch ::
  "('a, 'b) NodeGraphTensor_scheme \<Rightarrow> ('a, 'c) NodeGraphTensor_scheme
   \<Rightarrow> (error + unit) \<times> ('a, 'b) NodeGraphTensor_scheme" where
  "append_batch g graph_tensor =
     (if offset g \<noteq> 0 then (Inl AssertionError, g)
      else
        (let g1 = g\<lparr>num_graphs := num_graphs g + num_graphs graph_tensor\<rparr> in
         (case map_raise (\<lambda>x. list_plus_int x (int (length (u_adjacency g1))))
                         (adjacency graph_tensor) of
            Inl e \<Rightarrow> (Inl e, g1)
          | Inr shifted \<Rightarrow>
             (let g2 = (if is_subgraph g1 then g1
                        else g1\<lparr>u_adjacency := u_adjacency g1 @ shifted\<rparr>) in
              (case set_adjacency g2 (adjacency g1 @ shifted) of
                 Inl e \<Rightarrow> (Inl e, g2)
               | Inr g3 \<Rightarrow>
                  (let g4 = g3\<lparr>graph_nodes := graph_nodes g3 @ graph_nodes graph_tensor\<rparr> in
                   (case torch_cat0_objects (node_tensor g4) (node_tensor graph_tensor) of
                      Inl e \<Rightarrow> (Inl e, g4)
                    | Inr t \<Rightarrow> (Inr (), g4\<lparr>u_node_tensor := t\<rparr>))))))))"

text \<open>
  A sequence of \<open>add_node\<close> calls on the same batch, one per feature vector, collecting
  the returned indices; an exception ends the sequence.
\<close>

fun add_nodes ::
  "('a, 'b) NodeGraphTensor_scheme \<Rightarrow> 'a list list
   \<Rightarrow> (error + int list) \<times> ('a, 'b) NodeGraphTensor_scheme" where
  "add_nodes g [] = (Inr [], g)"
| "add_nodes g (f # fs) =
     (case add_node g f of
        (Inl e, g1) \<Rightarrow> (Inl e, g1)
      | (Inr i, g1) \<Rightarrow>
          (case add_nodes g1 fs of
             (Inl e, g2) \<Rightarrow> (Inl e, g2)
           | (Inr js, g2) \<Rightarrow> (Inr (i # js), g2)))"

text \<open>
  The batch that holds one graph with the rows \<open>t\<close> as nodes and no edges.
\<close>

definition single_graph :: "'a list list \<Rightarrow> 'a NodeGraphTensor" where
  "single_graph t = \<lparr> is_subgraph = False, offset = 0, num_graphs = 1,
      graph_nodes = [int (length t)], u_adjacency = replicate (length t) [], u_node_tensor = t \<rparr>"

text \<open>Two example batches: a sub-view on the second of two graphs, and a graph of two
  nodes joined by an edge.\<close>

definition two_graphs_view :: "int NodeGraphTensor" where
  "two_graphs_view = \<lparr> is_subgraph = True, offset = 1, num_graphs = 2, graph_nodes = [1, 2],
      u_adjacency = [[], [2], [1]], u_node_tensor = [[10], [20], [30]] \<rparr>"

definition edge_graph :: "int NodeGraphTensor" where
  "edge_graph = \<lparr> is_subgraph = False, offset = 0, num_graphs = 1, graph_nodes = [2],
      u_adjacency = [[1], [0]], u_node_tensor = [[2], [3]] \<rparr>"


section \<open>Neighbourhood traversal (standard_node_traversal)\<close>

text \<open>
  \<open>standard_node_traversal(depth)\<close> returns a recursive function of the graph, the
  entity and the remaining depth \<open>d\<close>, which starts at \<open>depth\<close>; the recursion ends at
  \<open>d == 0\<close>, so the depth is a natural number here. The order in which \<open>list(set(nodes))\<close>
  lists the elements is left open by Python: it is the parameter \<open>list_of_set\<close>, a function
  of the list the set is built from. An exception in a recursive call ends the loop.
\<close>

fun standard_node_traversal ::
  "(int list \<Rightarrow> int list) \<Rightarrow> nat \<Rightarrow> ('a, 'b) NodeGraphTensor_scheme \<Rightarrow> int
   \<Rightarrow> error + int list" where
  "standard_node_traversal list_of_set 0 graph entity = Inr [entity]"
| "standard_node_traversal list_of_set (Suc d) graph entity =
     (case py_position (length (adjacency graph)) entity of
        None \<Rightarrow> Inl IndexError
      | Some k \<Rightarrow>
          (let edges = adjacency graph ! k in
           (case map_raise
                   (\<lambda>new_node. if new_node \<noteq> entity
                      then standard_node_traversal list_of_set d graph new_node
                      else Inr [])
                   edges of
              Inl e \<Rightarrow> Inl e
            | Inr new_nodes \<Rightarrow> Inr (list_of_set ([entity] @ edges @ concat new_nodes)))))"

text \<open>
  The recursion of the specification (section 4.3), on sets: depth 0 yields the start
  node alone; depth \<open>d > 0\<close> yields the start node, its direct neighbours and the
  expansion at depth \<open>d - 1\<close> of every neighbour other than the start node.
\<close>

fun depth_expansion :: "int list list \<Rightarrow> nat \<Rightarrow> int \<Rightarrow> int set" where
  "depth_expansion adj 0 v = {v}"
| "depth_expansion adj (Suc d) v =
     {v} \<union> set (adj ! nat v) \<union> (\<Union>n \<in> set (adj ! nat v) - {v}. depth_expansion adj d n)"

text \<open>Every adjacency entry is an index of a node of the graph.\<close>

definition adjacency_in_range :: "int list list \<Rightarrow> bool" where
  "adjacency_in_range adj =
     list_all (\<lambda>row. list_all (\<lambda>n. 0 \<le> n \<and> n < int (length adj)) row) adj"

text \<open>The path graph 0 - 1 - 2 - 3 - 4.\<close>

definition path_graph :: "int NodeGraphTensor" where
  "path_graph = \<lparr> is_subgraph = False, offset = 0, num_graphs = 1, graph_nodes = [5],
      u_adjacency = [[1], [0, 2], [1, 3], [2, 4], [3]],
      u_node_tensor = [[0], [0], [0], [0], [0]] \<rparr>"

text \<open>The same graph with the neighbours of every node listed in the opposite order.\<close>

definition path_graph_reversed :: "int NodeGraphTensor" where
  "path_graph_reversed = path_graph\<lparr>u_adjacency := [[1], [2, 0], [3, 1], [4, 2], [3]]\<rparr>"


section \<open>PartitionedNodeGraphTensor and NodeGraphNeighbourhood\<close>

text \<open>
  The subclass adds the dictionary \<open>partition\<close> (here \<open>partition_dict\<close>), from a kind (\<open>None\<close> or a name) to the
  node indices of that kind, and \<open>partition_view\<close>, which is \<open>None\<close> or the name of a kind.
\<close>

record 'a PartitionedNodeGraphTensor = "'a NodeGraphTensor" +
  partition_view :: "string option"
  partition_dict :: "string option \<rightharpoonup> int list"

text \<open>
  The module holds three callables given to its constructor: the reducer, the
  traversal (by default \<open>standard_node_traversal(1)\<close>) and an optional order. They are
  functions of the graph that may raise.
\<close>

record ('a, 'g) NodeGraphNeighbourhood =
  reducer :: "'g \<Rightarrow> int list list \<Rightarrow> error + 'a list list"
  traversal :: "'g \<Rightarrow> int \<Rightarrow> error + int list"
  order :: "('g \<Rightarrow> int list \<Rightarrow> error + int list) option"

text \<open>The loop of \<open>forward\<close> over the nodes of \<open>partition\<close>, which builds \<open>full_nodes\<close>.\<close>

definition full_nodes ::
  "('a, ('a, 'b) NodeGraphTensor_scheme) NodeGraphNeighbourhood
   \<Rightarrow> ('a, 'b) NodeGraphTensor_scheme \<Rightarrow> int list \<Rightarrow> error + int list list" where
  "full_nodes m graph nodes_of_partition =
     map_raise
       (\<lambda>node. case traversal m graph node of
                  Inl e \<Rightarrow> Inl e
                | Inr nodes \<Rightarrow> (case order m of None \<Rightarrow> Inr nodes | Some f \<Rightarrow> f graph nodes))
       nodes_of_partition"

text \<open>
  The body of \<open>forward\<close> once \<open>partition\<close> is chosen. The argument \<open>include_self\<close> is not
  read anywhere in the body. The rows of the node tensor hold all the values of a node,
  so \<open>torch.cat(..., 1)\<close> puts the reduced values of a node after the values it has.
\<close>

definition forward_over ::
  "('a, ('a, 'b) NodeGraphTensor_scheme) NodeGraphNeighbourhood
   \<Rightarrow> ('a, 'b) NodeGraphTensor_scheme \<Rightarrow> int list \<Rightarrow> bool
   \<Rightarrow> (error + unit) \<times> ('a, 'b) NodeGraphTensor_scheme" where
  "forward_over m graph nodes_of_partition include_self =
     (case full_nodes m graph nodes_of_partition of
        Inl e \<Rightarrow> (Inl e, graph)
      | Inr ns \<Rightarrow>
         (case reducer m graph ns of
            Inl e \<Rightarrow> (Inl e, graph)
          | Inr reduced_nodes \<Rightarrow>
             (case torch_cat1 (u_node_tensor graph) reduced_nodes of
                Inl e \<Rightarrow> (Inl e, graph)
              | Inr t \<Rightarrow> (Inr (), graph\<lparr>u_node_tensor := t\<rparr>))))"

text \<open>\<open>forward\<close> on a graph that is not a PartitionedNodeGraphTensor.\<close>

definition forward ::
  "('a, 'a NodeGraphTensor) NodeGraphNeighbourhood \<Rightarrow> 'a NodeGraphTensor \<Rightarrow> bool
   \<Rightarrow> (error + unit) \<times> 'a NodeGraphTensor" where
  "forward m graph include_self =
     forward_over m graph (map int [0 ..< length (u_node_tensor graph)]) include_self"

text \<open>\<open>forward\<close> on a PartitionedNodeGraphTensor.\<close>

definition forward_partitioned ::
  "('a, 'a PartitionedNodeGraphTensor) NodeGraphNeighbourhood \<Rightarrow> 'a PartitionedNodeGraphTensor
   \<Rightarrow> bool \<Rightarrow> (error + unit) \<times> 'a PartitionedNodeGraphTensor" where
  "forward_partitioned m graph include_self =
     (case partition_view graph of
        None \<Rightarrow> forward_over m graph (map int [0 ..< length (u_node_tensor graph)]) include_self
      | Some name \<Rightarrow>
         (case partition_dict graph (Some name) of
            None \<Rightarrow> (Inl KeyError, graph)
          | Some p \<Rightarrow> forward_over m graph p include_self))"

text \<open>
  An example module for each kind of graph: the default traversal of depth 1 and a
  reducer that returns the value 2 for every node of the graph. The partitioned example
  graph has two nodes joined by an edge, both of the kind \<open>a\<close>, which is the one in view.
\<close>

definition constant_reducer ::
  "(int, 'b) NodeGraphTensor_scheme \<Rightarrow> int list list \<Rightarrow> error + int list list" where
  "constant_reducer graph ns = Inr (map (\<lambda>_. [2]) (u_node_tensor graph))"

definition constant_module :: "(int, int NodeGraphTensor) NodeGraphNeighbourhood" where
  "constant_module = \<lparr> reducer = constant_reducer,
      traversal = standard_node_traversal remdups 1, order = None \<rparr>"

definition constant_module_partitioned ::
  "(int, int PartitionedNodeGraphTensor) NodeGraphNeighbourhood" where
  "constant_module_partitioned = \<lparr> reducer = constant_reducer,
      traversal = standard_node_traversal remdups 1, order = None \<rparr>"

definition partitioned_example :: "int PartitionedNodeGraphTensor" where
  "partitioned_example = \<lparr> is_subgraph = False, offset = 0, num_graphs = 1,
      graph_nodes = [2], u_adjacency = [[1], [0]], u_node_tensor = [[1], [3]],
      partition_view = Some ''a'',
      partition_dict = [None \<mapsto> [], Some ''a'' \<mapsto> [0, 1]] \<rparr>"


section \<open>Aggregation strategies (torchsupport/modules/structured/entitynn.py)\<close>

text \<open>
  The values of a tensor are real numbers here, and the operations of torch are the
  functions on reals they compute up to rounding. A one-dimensional tensor is a list;
  a two-dimensional tensor of shape \<open>(k, c)\<close> is \<open>Tensor2 c rows\<close> with \<open>k\<close> rows of \<open>c\<close>
  entries each, so that a tensor without rows still has its width.
\<close>

datatype tensor2 = Tensor2 (width: nat) (rows: "real list list")

text \<open>
  \<open>nn.Linear(in_features, out_features)\<close> with its weight matrix, of one row per output,
  and its bias: \<open>x \<mapsto> x W\<^sup>T + b\<close>, on a vector and on every row of a two-dimensional tensor.
  The last dimension of the argument must be \<open>in_features\<close>.
\<close>

record Linear =
  in_features :: nat
  weight :: "real list list"
  bias :: "real list"

definition Linear_ok :: "Linear \<Rightarrow> bool" where
  "Linear_ok l = (length (weight l) = length (bias l)
                  \<and> list_all (\<lambda>w. length w = in_features l) (weight l))"

definition dot :: "real list \<Rightarrow> real list \<Rightarrow> real" where
  "dot w x = sum_list (map (\<lambda>(a, b). a * b) (zip w x))"

definition affine :: "Linear \<Rightarrow> real list \<Rightarrow> real list" where
  "affine l x = map (\<lambda>(w, b). dot w x + b) (zip (weight l) (bias l))"

definition Linear_vector :: "Linear \<Rightarrow> real list \<Rightarrow> error + real list" where
  "Linear_vector l x = (if length x = in_features l then Inr (affine l x) else Inl RuntimeError)"

definition Linear_tensor2 :: "Linear \<Rightarrow> tensor2 \<Rightarrow> error + tensor2" where
  "Linear_tensor2 l t =
     (if width t = in_features l then Inr (Tensor2 (length (bias l)) (map (affine l) (rows t)))
      else Inl RuntimeError)"

definition relu :: "real \<Rightarrow> real" where
  "relu x = max 0 x"

definition relu_tensor2 :: "tensor2 \<Rightarrow> tensor2" where
  "relu_tensor2 t = Tensor2 (width t) (map (map relu) (rows t))"

text \<open>
  \<open>sum(dim=0)\<close> of a tensor of shape \<open>(k, c)\<close> is the vector of the \<open>c\<close> column sums; without
  rows it is the zero vector of width \<open>c\<close>. \<open>mean(dim=0)\<close> divides the column sums by \<open>k\<close>;
  without rows torch computes \<open>0 / 0\<close> and returns a vector of NaN, which is no real
  number: the model marks that result with \<open>NotANumber\<close>.
\<close>

definition torch_sum_dim0 :: "tensor2 \<Rightarrow> error + real list" where
  "torch_sum_dim0 t = Inr (map (\<lambda>j. sum_list (map (\<lambda>r. r ! j) (rows t))) [0 ..< width t])"

definition torch_mean_dim0 :: "tensor2 \<Rightarrow> error + real list" where
  "torch_mean_dim0 t =
     (if rows t = [] then Inl NotANumber
      else Inr (map (\<lambda>j. sum_list (map (\<lambda>r. r ! j) (rows t)) / real (length (rows t)))
                    [0 ..< width t]))"

definition torch_mean_dim0_keepdim :: "tensor2 \<Rightarrow> error + tensor2" where
  "torch_mean_dim0_keepdim t =
     (case torch_mean_dim0 t of Inl e \<Rightarrow> Inl e | Inr m \<Rightarrow> Inr (Tensor2 (width t) [m]))"

text \<open>
  Broadcasting along the last dimension: two widths are compatible when they are equal
  or one of them is 1, and the operand of width 1 is repeated.
\<close>

definition compatible :: "nat \<Rightarrow> nat \<Rightarrow> bool" where
  "compatible a b = (a = b \<or> a = 1 \<or> b = 1)"

definition broadcast_width :: "nat \<Rightarrow> nat \<Rightarrow> nat" where
  "broadcast_width a b = (if a = 1 then b else a)"

definition broadcast :: "(real \<Rightarrow> real \<Rightarrow> real) \<Rightarrow> real list \<Rightarrow> real list \<Rightarrow> real list" where
  "broadcast f xs ys =
     (if length xs = length ys then map (\<lambda>(x, y). f x y) (zip xs ys)
      else if length xs = 1 then map (f (hd xs)) ys
      else map (\<lambda>x. f x (hd ys)) xs)"

text \<open>\<open>v + t\<close> for a vector \<open>v\<close> and a two-dimensional \<open>t\<close>: \<open>v\<close> is added to every row.\<close>

definition add_vector_tensor2 :: "real list \<Rightarrow> tensor2 \<Rightarrow> error + tensor2" where
  "add_vector_tensor2 v t =
     (if compatible (length v) (width t)
      then Inr (Tensor2 (broadcast_width (length v) (width t)) (map (broadcast (+) v) (rows t)))
      else Inl RuntimeError)"

text \<open>\<open>s * t\<close> for two-dimensional tensors with the same number of rows.\<close>

definition mul_tensor2 :: "tensor2 \<Rightarrow> tensor2 \<Rightarrow> error + tensor2" where
  "mul_tensor2 s t =
     (if compatible (width s) (width t) \<and> length (rows s) = length (rows t)
      then Inr (Tensor2 (broadcast_width (width s) (width t))
                  (map (\<lambda>(r, q). broadcast (*) r q) (zip (rows s) (rows t))))
      else Inl RuntimeError)"

text \<open>\<open>softmax(dim=1)\<close>: every row is normalised on its own.\<close>

definition softmax_row :: "real list \<Rightarrow> real list" where
  "softmax_row r = map (\<lambda>x. exp x / sum_list (map exp r)) r"

definition softmax_dim1 :: "tensor2 \<Rightarrow> tensor2" where
  "softmax_dim1 t = Tensor2 (width t) (map softmax_row (rows t))"

subsection \<open>NeighbourLinear\<close>

text \<open>\<open>own_data + func.relu(self.linear(source_messages)).mean(dim=0, keepdim=True)\<close>\<close>

definition NeighbourLinear_reduce :: "Linear \<Rightarrow> real list \<Rightarrow> tensor2 \<Rightarrow> error + tensor2" where
  "NeighbourLinear_reduce linear_layer own_data source_messages =
     (case Linear_tensor2 linear_layer source_messages of
        Inl e \<Rightarrow> Inl e
      | Inr y \<Rightarrow>
         (case torch_mean_dim0_keepdim (relu_tensor2 y) of
            Inl e \<Rightarrow> Inl e
          | Inr m \<Rightarrow> add_vector_tensor2 own_data m))"

text \<open>
  The formula of the specification for LinearNeighbour, \<open>own + relu(linear(mean(messages)))\<close>:
  the linear map and the ReLU are applied to the mean of the messages.
\<close>

definition spec_LinearNeighbour :: "Linear \<Rightarrow> real list \<Rightarrow> tensor2 \<Rightarrow> error + tensor2" where
  "spec_LinearNeighbour linear_layer own messages =
     (case torch_mean_dim0_keepdim messages of
        Inl e \<Rightarrow> Inl e
      | Inr m \<Rightarrow>
         (case Linear_tensor2 linear_layer m of
            Inl e \<Rightarrow> Inl e
          | Inr y \<Rightarrow> add_vector_tensor2 own (relu_tensor2 y)))"

text \<open>The linear layer of one input and one output that is the identity.\<close>

definition identity_layer :: Linear where
  "identity_layer = \<lparr> in_features = 1, weight = [[1]], bias = [0] \<rparr>"

subsection \<open>NeighbourAttention, NeighbourDotAttention, NeighbourReducer\<close>

text \<open>
  \<open>NeighbourAttention\<close> holds the callable \<open>attention\<close>;
  \<open>torch.Tensor.sum(attention * source_message, dim=0)\<close>.
\<close>

definition NeighbourAttention_reduce ::
  "(real list \<Rightarrow> tensor2 \<Rightarrow> error + tensor2) \<Rightarrow> real list \<Rightarrow> tensor2 \<Rightarrow> error + real list" where
  "NeighbourAttention_reduce attention own_data source_message =
     (case attention own_data source_message of
        Inl e \<Rightarrow> Inl e
      | Inr a \<Rightarrow>
         (case mul_tensor2 a source_message of
            Inl e \<Rightarrow> Inl e
          | Inr p \<Rightarrow> torch_sum_dim0 p))"

text \<open>
  \<open>NeighbourDotAttention(size)\<close> holds \<open>embedding = nn.Linear(size, size)\<close> and
  \<open>attention_local\<close>, \<open>attention_neighbour = nn.Linear(size, 1)\<close>.
\<close>

record NeighbourDotAttention =
  embedding :: Linear
  attention_local :: Linear
  attention_neighbour :: Linear

definition NeighbourDotAttention_ok :: "nat \<Rightarrow> NeighbourDotAttention \<Rightarrow> bool" where
  "NeighbourDotAttention_ok sz m =
     (Linear_ok (embedding m) \<and> in_features (embedding m) = sz
        \<and> length (bias (embedding m)) = sz
      \<and> Linear_ok (attention_local m) \<and> in_features (attention_local m) = sz
        \<and> length (bias (attention_local m)) = 1
      \<and> Linear_ok (attention_neighbour m) \<and> in_features (attention_neighbour m) = sz
        \<and> length (bias (attention_neighbour m)) = 1)"

definition NeighbourDotAttention_reduce ::
  "NeighbourDotAttention \<Rightarrow> real list \<Rightarrow> tensor2 \<Rightarrow> error + real list" where
  "NeighbourDotAttention_reduce m own_data source_message =
     (case Linear_vector (embedding m) own_data of
        Inl e \<Rightarrow> Inl e
      | Inr eo \<Rightarrow>
     (case Linear_vector (attention_local m) eo of
        Inl e \<Rightarrow> Inl e
      | Inr target \<Rightarrow>
     (case Linear_tensor2 (embedding m) source_message of
        Inl e \<Rightarrow> Inl e
      | Inr es \<Rightarrow>
     (case Linear_tensor2 (attention_neighbour m) es of
        Inl e \<Rightarrow> Inl e
      | Inr source \<Rightarrow>
     (case add_vector_tensor2 target source of
        Inl e \<Rightarrow> Inl e
      | Inr s \<Rightarrow>
     (case mul_tensor2 (softmax_dim1 s) source_message of
        Inl e \<Rightarrow> Inl e
      | Inr p \<Rightarrow> torch_sum_dim0 p))))))"

text \<open>
  \<open>NeighbourReducer(reduction)\<close>: \<open>self.reduction(source_message, dim=0)\<close>; \<open>NeighbourSum\<close>
  and \<open>NeighbourMean\<close> are the reducers of \<open>torch.sum\<close> and \<open>torch.mean\<close>.
\<close>

definition NeighbourReducer_reduce ::
  "(tensor2 \<Rightarrow> error + real list) \<Rightarrow> real list \<Rightarrow> tensor2 \<Rightarrow> error + real list" where
  "NeighbourReducer_reduce reduction own_data source_message = reduction source_message"

definition NeighbourSum_reduce :: "real list \<Rightarrow> tensor2 \<Rightarrow> error + real list" where
  "NeighbourSum_reduce = NeighbourReducer_reduce torch_sum_dim0"

definition NeighbourMean_reduce :: "real list \<Rightarrow> tensor2 \<Rightarrow> error + real list" where
  "NeighbourMean_reduce = NeighbourReducer_reduce torch_mean_dim0"

text \<open>A dot attention of size 1 whose three layers are the identity.\<close>

definition identity_attention :: NeighbourDotAttention where
  "identity_attention = \<lparr> embedding = identity_layer, attention_local = identity_layer,
      attention_neighbour = identity_layer \<rparr>"


section \<open>Pooling (torchsupport/structured/modules/pooling.py)\<close>

text \<open>
  \<open>MILAttention(in_size, out_size, attention_size, heads)\<close> holds five linear layers:
  \<open>query, gate = nn.Linear(attention_size, heads)\<close>, \<open>key = nn.Linear(in_size, attention_size)\<close>,
  \<open>value = nn.Linear(in_size, heads * attention_size)\<close> and
  \<open>out = nn.Linear(heads * attention_size, out_size)\<close>.
\<close>

record MILAttention =
  heads :: nat
  query_layer :: Linear
  gate_layer :: Linear
  key_layer :: Linear
  value_layer :: Linear
  out_layer :: Linear

definition sigmoid :: "real \<Rightarrow> real" where
  "sigmoid x = 1 / (1 + exp (- x))"

definition map_tensor2 :: "(real \<Rightarrow> real) \<Rightarrow> tensor2 \<Rightarrow> tensor2" where
  "map_tensor2 f t = Tensor2 (width t) (map (map f) (rows t))"

text \<open>
  Modelled from the spec: \<open>scatter.softmax(data, indices)\<close> of the module
  \<open>torchsupport.structured.scatter\<close>, which is not among the sources. It is the grouped
  (segment) softmax of section 4.6: the entry of node \<open>i\<close> in column \<open>h\<close> is
  \<open>exp(data[i][h])\<close> divided by the sum of \<open>exp(data[j][h])\<close> over the nodes \<open>j\<close> that share
  the group id of \<open>i\<close>. There is one group id per row.
\<close>

definition group_total :: "real list list \<Rightarrow> int list \<Rightarrow> int \<Rightarrow> (real list \<Rightarrow> real) \<Rightarrow> real" where
  "group_total rws indices g f =
     sum_list (map (\<lambda>(r, g'). if g' = g then f r else 0) (zip rws indices))"

definition scatter_softmax :: "tensor2 \<Rightarrow> int list \<Rightarrow> error + tensor2" where
  "scatter_softmax data indices =
     (if length indices = length (rows data)
      then Inr (Tensor2 (width data)
             (map (\<lambda>(r, g). map (\<lambda>h. exp (r ! h)
                                      / group_total (rows data) indices g (\<lambda>q. exp (q ! h)))
                                [0 ..< width data])
                  (zip (rows data) indices)))
      else Inl RuntimeError)"

text \<open>
  Modelled from the spec: the grouped sum of section 4.6, which \<open>scatter.sum\<close> of the same
  absent module is to compute when it is given the group ids: one row per non-empty
  group, in ascending order of the group ids, each row the sum of the rows of the nodes
  of that group.
\<close>

definition scatter_sum :: "tensor2 \<Rightarrow> int list \<Rightarrow> error + tensor2" where
  "scatter_sum data indices =
     (if length indices = length (rows data)
      then Inr (Tensor2 (width data)
             (map (\<lambda>g. map (\<lambda>j. group_total (rows data) indices g (\<lambda>r. r ! j))
                            [0 ..< width data])
                  (sort (remdups indices))))
      else Inl RuntimeError)"

text \<open>
  \<open>weight.view(..., 1, heads) * value.view(..., -1, heads)\<close>, row by row and flattened
  again as \<open>result.view(..., -1)\<close> flattens it: entry \<open>k\<close> of the value row is multiplied by
  the weight of head \<open>k mod heads\<close>. The views need \<open>heads\<close> weights per row and a value
  row that splits into rows of \<open>heads\<close> entries.
\<close>

definition weight_times_value :: "nat \<Rightarrow> tensor2 \<Rightarrow> tensor2 \<Rightarrow> error + tensor2" where
  "weight_times_value h w v =
     (if 0 < h \<and> width w = h \<and> width v mod h = 0 \<and> length (rows w) = length (rows v)
      then Inr (Tensor2 (width v)
             (map (\<lambda>(wr, vr). map (\<lambda>k. wr ! (k mod h) * vr ! k) [0 ..< width v])
                  (zip (rows w) (rows v))))
      else Inl RuntimeError)"

text \<open>
  \<open>combine\<close>. The call \<open>scatter.sum(weight * value)\<close> passes one argument, the products,
  and not \<open>indices\<close>: whatever \<open>scatter.sum\<close> does with one argument is the parameter
  \<open>scatter_sum_1\<close>, a function of the products alone that may raise.
\<close>

definition combine ::
  "(tensor2 \<Rightarrow> error + tensor2) \<Rightarrow> MILAttention \<Rightarrow> tensor2 \<Rightarrow> int list \<Rightarrow> error + tensor2" where
  "combine scatter_sum_1 m nodes indices =
     (case Linear_tensor2 (key_layer m) nodes of
        Inl e \<Rightarrow> Inl e
      | Inr k \<Rightarrow>
     (case Linear_tensor2 (gate_layer m) nodes of
        Inl e \<Rightarrow> Inl e
      | Inr g \<Rightarrow>
     (case mul_tensor2 (map_tensor2 tanh k) (map_tensor2 sigmoid g) of
        Inl e \<Rightarrow> Inl e
      | Inr gating \<Rightarrow>
     (case Linear_tensor2 (query_layer m) gating of
        Inl e \<Rightarrow> Inl e
      | Inr logits \<Rightarrow>
     (case scatter_softmax logits indices of
        Inl e \<Rightarrow> Inl e
      | Inr attention_weight \<Rightarrow>
     (case Linear_tensor2 (value_layer m) nodes of
        Inl e \<Rightarrow> Inl e
      | Inr val \<Rightarrow>
     (case weight_times_value (heads m) attention_weight val of
        Inl e \<Rightarrow> Inl e
      | Inr products \<Rightarrow>
     (case scatter_sum_1 products of
        Inl e \<Rightarrow> Inl e
      | Inr result \<Rightarrow> Linear_tensor2 (out_layer m) result))))))))"

text \<open>
  The pooling of the specification: as \<open>combine\<close>, with the products summed within each
  group of \<open>indices\<close>.
\<close>

definition spec_pooling :: "MILAttention \<Rightarrow> tensor2 \<Rightarrow> int list \<Rightarrow> error + tensor2" where
  "spec_pooling m nodes indices = combine (\<lambda>products. scatter_sum products indices) m nodes indices"

text \<open>The module of one head whose five layers are the identity on width 1.\<close>

definition identity_pool :: MILAttention where
  "identity_pool = \<lparr> heads = 1, query_layer = identity_layer, gate_layer = identity_layer,
      key_layer = identity_layer, value_layer = identity_layer, out_layer = identity_layer \<rparr>"

section \<open>Properties of NodeGraphTensor\<close>

subsection \<open>Adding nodes\<close>

lemma same_width_snoc:
  "list_all (\<lambda>s. length s = w) t \<Longrightarrow> length f = w \<Longrightarrow> same_width (t @ [f])"
  by (cases t) (auto simp: same_width_def list_all_iff)

lemma add_node_single_graph:
  assumes "list_all (\<lambda>s. length s = w) t" "length f = w"
  shows "add_node (single_graph t) f = (Inr (int (length t)), single_graph (t @ [f]))"
  using same_width_snoc[OF assms]
  by (simp add: add_node_def single_graph_def py_position_def nodes_including_def
      py_slice_to_def py_slice_from_def py_bound_def torch_cat0_def Let_def
      replicate_append_same)

lemma add_nodes_single_graph:
  "list_all (\<lambda>s. length s = w) t \<Longrightarrow> list_all (\<lambda>s. length s = w) fs \<Longrightarrow>
   add_nodes (single_graph t) fs =
     (Inr (map int [length t ..< length t + length fs]), single_graph (t @ fs))"
proof (induction fs arbitrary: t)
  case Nil
  then show ?case by simp
next
  case (Cons f fs)
  from Cons.prems have f: "length f = w" and fs: "list_all (\<lambda>s. length s = w) fs" by simp_all
  have t': "list_all (\<lambda>s. length s = w) (t @ [f])" using Cons.prems(1) f by simp
  have idx: "[length t ..< length t + length (f # fs)] =
      length t # [length (t @ [f]) ..< length (t @ [f]) + length fs]"
    by (simp add: upt_conv_Cons del: upt_Suc)
  show ?case
    unfolding idx
    by (simp add: add_node_single_graph[OF Cons.prems(1) f] Cons.IH[OF t' fs])
qed

text \<open>
  C9: after \<open>n\<close> successive calls of \<open>add_node\<close> on a freshly created empty batch, with
  feature vectors of one width, every call has returned the index of the row it appended
  (the calls return \<open>0, 1, ..., n - 1\<close> and row \<open>i\<close> of the node tensor is the \<open>i\<close>-th
  feature), \<open>graph_nodes[0]\<close> equals \<open>n\<close> and the node tensor has exactly \<open>n\<close> rows.
\<close>

theorem add_node_n_times:
  assumes "list_all (\<lambda>f. length f = w) fs"
  shows "\<exists>g'. add_nodes init fs = (Inr (map int [0 ..< length fs]), g')
           \<and> graph_nodes g' = [int (length fs)]
           \<and> u_node_tensor g' = fs
           \<and> length (u_node_tensor g') = length fs
           \<and> length (u_adjacency g') = length fs"
  using add_nodes_single_graph[of w "[]" fs] assms
  by (simp add: init_def single_graph_def)

theorem add_node_n_times_witness:
  "list_all (\<lambda>f. length f = 2) [[1::int, 2], [3, 4], [5, 6]]
   \<and> (\<exists>g'. add_nodes init [[1::int, 2], [3, 4], [5, 6]] = (Inr [0, 1, 2], g')
           \<and> graph_nodes g' = [3]
           \<and> u_node_tensor g' = [[1, 2], [3, 4], [5, 6]])"
proof -
  have h: "list_all (\<lambda>f. length f = 2) [[1::int, 2], [3, 4], [5, 6]]" by simp
  from add_node_n_times[OF h] obtain g' where
    "add_nodes init [[1::int, 2], [3, 4], [5, 6]]
       = (Inr (map int [0 ..< length [[1::int, 2], [3, 4], [5, 6]]]), g')"
    "graph_nodes g' = [int (length [[1::int, 2], [3, 4], [5, 6]])]"
    "u_node_tensor g' = [[1, 2], [3, 4], [5, 6]]"
    by blast
  then have "add_nodes init [[1::int, 2], [3, 4], [5, 6]] = (Inr [0, 1, 2], g')
      \<and> graph_nodes g' = [3] \<and> u_node_tensor g' = [[1, 2], [3, 4], [5, 6]]"
    by (simp add: upt_rec)
  then show ?thesis using h by blast
qed

subsection \<open>Adding edges\<close>

lemma py_position_less: "py_position n i = Some k \<Longrightarrow> k < n"
  by (auto simp: py_position_def split: if_splits)

lemma py_position_nonneg: "0 \<le> i \<Longrightarrow> i < int n \<Longrightarrow> py_position n i = Some (nat i)"
  by (simp add: py_position_def)

lemma py_bound_le: "py_bound n i \<le> n"
  by (auto simp: py_bound_def)

lemma length_adjacency_update:
  "length U = length (u_adjacency g) \<Longrightarrow>
   length (adjacency (g\<lparr>u_adjacency := U\<rparr>)) = length (adjacency g)"
  by (simp add: adjacency_def py_slice_def view_start_def view_stop_def nodes_including_def)

lemma adjacency_list_update:
  "adjacency (g\<lparr>u_adjacency := (u_adjacency g)[view_base g + k := x]\<rparr>) = (adjacency g)[k := x]"
  by (simp add: adjacency_def view_base_def py_slice_def view_start_def view_stop_def
      nodes_including_def drop_update_swap take_update_swap)

lemma view_base_list_update [simp]:
  "view_base (g\<lparr>u_adjacency := (u_adjacency g)[p := x]\<rparr>) = view_base g"
  by (simp add: view_base_def view_start_def nodes_including_def)

lemma adjacency_append_Some:
  assumes "py_position (length (adjacency g)) i = Some k"
  shows "adjacency_append g i v =
           Inr (g\<lparr>u_adjacency := (u_adjacency g)[view_base g + k := adjacency g ! k @ [v]]\<rparr>)"
proof -
  have k: "k < length (adjacency g)" using assms by (rule py_position_less)
  have "adjacency g ! k = u_adjacency g ! (view_base g + k)"
    using k by (auto simp: adjacency_def view_base_def py_slice_def)
  then show ?thesis using assms by (simp add: adjacency_append_def adjacency_position_def)
qed

lemma adjacency_append_None:
  "py_position (length (adjacency g)) i = None \<Longrightarrow> adjacency_append g i v = Inl IndexError"
  by (simp add: adjacency_append_def adjacency_position_def)





subsection \<open>The node_tensor property\<close>

lemma sum_list_take_Suc:
  "k < length (xs :: int list) \<Longrightarrow> sum_list (take (Suc k) xs) = sum_list (take k xs) + xs ! k"
  by (simp add: take_Suc_conv_app_nth)

lemma sum_list_take_le:
  assumes "list_all (\<lambda>c. 0 \<le> c) (xs :: int list)"
  shows "0 \<le> sum_list (take k xs) \<and> sum_list (take k xs) \<le> sum_list xs"
proof -
  have "sum_list xs = sum_list (take k xs) + sum_list (drop k xs)"
    by (metis append_take_drop_id sum_list.append)
  moreover have "0 \<le> sum_list (drop k xs)" and "0 \<le> sum_list (take k xs)"
    using assms by (auto simp: list_all_iff intro!: sum_list_nonneg dest!: in_set_dropD in_set_takeD)
  ultimately show ?thesis by simp
qed

lemma view_bounds:
  assumes "0 \<le> offset g" "offset g < int (length (graph_nodes g))"
  shows "view_start g = sum_list (take (nat (offset g)) (graph_nodes g))"
    and "view_stop g = sum_list (take (nat (offset g)) (graph_nodes g)) + graph_nodes g ! nat (offset g)"
proof -
  show "view_start g = sum_list (take (nat (offset g)) (graph_nodes g))"
    using assms by (auto simp: view_start_def nodes_including_def py_slice_to_def py_bound_def min_def)
  have "nat (offset g + 1) = Suc (nat (offset g))" using assms by simp
  then show "view_stop g = sum_list (take (nat (offset g)) (graph_nodes g)) + graph_nodes g ! nat (offset g)"
    using assms sum_list_take_Suc[of "nat (offset g)" "graph_nodes g"]
    by (auto simp: view_stop_def nodes_including_def py_slice_to_def py_bound_def min_def)
qed

lemma view_slice:
  assumes "0 \<le> offset g" "offset g < int (length (graph_nodes g))"
    "list_all (\<lambda>c. 0 \<le> c) (graph_nodes g)" "sum_list (graph_nodes g) \<le> int (length xs)"
  shows "py_slice xs (view_start g) (view_stop g) =
         take (nat (graph_nodes g ! nat (offset g)))
              (drop (nat (sum_list (take (nat (offset g)) (graph_nodes g)))) xs)"
proof -
  let ?k = "nat (offset g)"
  let ?s = "sum_list (take ?k (graph_nodes g))"
  let ?c = "graph_nodes g ! ?k"
  have k: "?k < length (graph_nodes g)" using assms by simp
  have c: "0 \<le> ?c" using assms(3) k by (simp add: list_all_length)
  have s: "0 \<le> ?s" using sum_list_take_le[OF assms(3)] by simp
  have "?s + ?c = sum_list (take (Suc ?k) (graph_nodes g))"
    using sum_list_take_Suc[OF k] by simp
  then have e: "?s + ?c \<le> int (length xs)"
    using sum_list_take_le[OF assms(3), of "Suc ?k"] assms(4) by simp
  have b1: "py_bound (length xs) ?s = nat ?s" using s c e by (simp add: py_bound_def)
  have b2: "py_bound (length xs) (?s + ?c) = nat ?s + nat ?c"
    using s c e by (simp add: py_bound_def nat_add_distrib)
  show ?thesis
    unfolding py_slice_def view_bounds[OF assms(1,2)] b1 b2 by simp
qed

text \<open>
  C10: for a batch that is not a sub-view, reading \<open>node_tensor\<close> returns the adjacency
  list of the batch and not its node-feature array; only a sub-view gets feature rows,
  namely the slice from \<open>view_start\<close> to \<open>view_stop\<close>, which for a well-formed batch is
  the range of rows of the graph at \<open>offset\<close>.
\<close>

theorem node_tensor_getter:
  "(\<not> is_subgraph g \<longrightarrow> node_tensor g = AdjacencyList (u_adjacency g)
        \<and> node_tensor g \<noteq> Tensor (u_node_tensor g))
   \<and> (is_subgraph g \<longrightarrow>
        node_tensor g = Tensor (py_slice (u_node_tensor g) (view_start g) (view_stop g)))
   \<and> (is_subgraph g \<and> 0 \<le> offset g \<and> offset g < int (length (graph_nodes g))
        \<and> list_all (\<lambda>c. 0 \<le> c) (graph_nodes g)
        \<and> sum_list (graph_nodes g) \<le> int (length (u_node_tensor g)) \<longrightarrow>
        node_tensor g = Tensor (take (nat (graph_nodes g ! nat (offset g)))
          (drop (nat (sum_list (take (nat (offset g)) (graph_nodes g)))) (u_node_tensor g))))"
  using view_slice[of g "u_node_tensor g"] by (simp add: node_tensor_def)

theorem node_tensor_getter_witness:
  "\<not> is_subgraph (single_graph [[1::int], [2]])
   \<and> node_tensor (single_graph [[1::int], [2]]) = AdjacencyList [[], []]
   \<and> is_subgraph two_graphs_view
   \<and> 0 \<le> offset two_graphs_view \<and> offset two_graphs_view < int (length (graph_nodes two_graphs_view))
   \<and> list_all (\<lambda>c. 0 \<le> c) (graph_nodes two_graphs_view)
   \<and> sum_list (graph_nodes two_graphs_view) \<le> int (length (u_node_tensor two_graphs_view))
   \<and> node_tensor two_graphs_view = Tensor [[20], [30]]"
  using node_tensor_getter[of "single_graph [[1::int], [2]]"] node_tensor_getter[of two_graphs_view]
  by (auto simp: single_graph_def two_graphs_view_def)

subsection \<open>Appending a batch\<close>

lemma map_raise_list_plus_int:
  "map_raise (\<lambda>x. list_plus_int x n) xs = (if xs = [] then Inr [] else Inl TypeError)"
  by (cases xs) (simp_all add: list_plus_int_def)

lemma append_batch_raises:
  "append_batch g h =
     (if offset g \<noteq> 0 then (Inl AssertionError, g)
      else if adjacency h \<noteq> [] then (Inl TypeError, g\<lparr>num_graphs := num_graphs g + num_graphs h\<rparr>)
      else (Inl AttributeError, g\<lparr>num_graphs := num_graphs g + num_graphs h\<rparr>))"
  by (simp add: append_batch_def map_raise_list_plus_int set_adjacency_def Let_def)

text \<open>
  C1: \<open>A.append(B)\<close> on a root batch \<open>A\<close> is meant to join the feature rows, the graph
  node counts and the adjacency with the indices of \<open>B\<close> shifted by the node count of \<open>A\<close>.
  The code never gets there (lemma \<open>append_batch_raises\<close>): for \<open>A\<close> with one node and \<open>B\<close>
  with two nodes and an edge it raises TypeError when it adds an int to the first
  adjacency row of \<open>B\<close>, and for a \<open>B\<close> without nodes it raises AttributeError when it
  stores through the property; in both cases only \<open>num_graphs\<close> has changed.
\<close>

theorem append_raises_on_example:
  "append_batch (single_graph [[1::int]]) edge_graph
     = (Inl TypeError, (single_graph [[1]])\<lparr>num_graphs := 2\<rparr>)
   \<and> append_batch (single_graph [[1::int]]) (single_graph ([] :: int list list))
     = (Inl AttributeError, (single_graph [[1]])\<lparr>num_graphs := 2\<rparr>)"
  by (simp add: append_batch_raises single_graph_def edge_graph_def adjacency_def)

subsection \<open>Failing mutations\<close>

lemma py_position_None: "i < - int n \<or> int n \<le> i \<Longrightarrow> py_position n i = None"
  by (auto simp: py_position_def)

lemma add_edge_source_out_of_range:
  "py_position (length (adjacency g)) i = None \<Longrightarrow> add_edge g i j = (Inl IndexError, g)"
  by (simp add: add_edge_def adjacency_append_None)

lemma add_edge_target_out_of_range:
  assumes i: "py_position (length (adjacency g)) i = Some k"
      and j: "py_position (length (adjacency g)) j = None"
  shows "add_edge g i j = (Inl IndexError,
           g\<lparr>u_adjacency := (u_adjacency g)[view_base g + k := adjacency g ! k @ [j]]\<rparr>)"
proof -
  define g1 where "g1 = g\<lparr>u_adjacency := (u_adjacency g)[view_base g + k := adjacency g ! k @ [j]]\<rparr>"
  have a1: "adjacency g1 = (adjacency g)[k := adjacency g ! k @ [j]]"
    unfolding g1_def by (rule adjacency_list_update)
  have s1: "adjacency_append g i j = Inr g1"
    unfolding g1_def by (rule adjacency_append_Some[OF i])
  have "py_position (length (adjacency g1)) j = None" using j by (simp add: a1)
  then have s2: "adjacency_append g1 j i = Inl IndexError" by (rule adjacency_append_None)
  show ?thesis unfolding g1_def[symmetric] by (simp add: add_edge_def s1 s2)
qed

text \<open>
  C6 as stated, refuted: \<open>add_edge(0, 5)\<close> on a batch of one node raises IndexError and
  leaves \<open>5\<close> in \<open>adjacency[0]\<close>, so the batch is not as it was before the call.
\<close>

theorem failed_add_edge_changes_adjacency:
  "add_edge (single_graph [[1::int]]) 0 5
     = (Inl IndexError, (single_graph [[1]])\<lparr>u_adjacency := [[5]]\<rparr>)
   \<and> u_adjacency (single_graph [[1::int]]) = [[]]
   \<and> (single_graph [[1::int]])\<lparr>u_adjacency := [[5]]\<rparr> \<noteq> single_graph [[1]]"
proof -
  have l: "length (adjacency (single_graph [[1::int]])) = 1"
    by (simp add: adjacency_def single_graph_def)
  have "add_edge (single_graph [[1::int]]) 0 5
     = (Inl IndexError, (single_graph [[1]])\<lparr>u_adjacency := [[5]]\<rparr>)"
    using add_edge_target_out_of_range[of "single_graph [[1::int]]" 0 0 5]
    by (simp add: l py_position_def) (simp add: single_graph_def adjacency_def view_base_def)
  then show ?thesis by (simp add: single_graph_def)
qed

text \<open>
  C6, amended: a mutation that fails at its first check leaves the batch unchanged:
  \<open>add_edge\<close> with the source index out of range, \<open>add_node\<close> with \<open>num_graphs\<close> other than
  1 or with \<open>offset\<close> out of the range of \<open>graph_nodes\<close>, \<open>append\<close> with \<open>offset\<close> other than 0.
  \<open>add_edge(i, j)\<close> with \<open>i\<close> in range and \<open>j\<close> out of range raises IndexError after it has
  appended \<open>j\<close> to \<open>adjacency[i]\<close>, which is the only change it leaves.
\<close>

theorem failed_mutation_at_entry_check:
  "((i < - int (length (adjacency g)) \<or> int (length (adjacency g)) \<le> i)
      \<longrightarrow> add_edge g i j = (Inl IndexError, g))
   \<and> (0 \<le> i \<and> i < int (length (adjacency g))
       \<and> (j < - int (length (adjacency g)) \<or> int (length (adjacency g)) \<le> j)
      \<longrightarrow> add_edge g i j = (Inl IndexError,
             g\<lparr>u_adjacency := (u_adjacency g)[view_base g + nat i := adjacency g ! nat i @ [j]]\<rparr>))
   \<and> (num_graphs g \<noteq> 1 \<longrightarrow> add_node g f = (Inl AssertionError, g))
   \<and> (num_graphs g = 1
       \<and> (offset g < - int (length (graph_nodes g)) \<or> int (length (graph_nodes g)) \<le> offset g)
      \<longrightarrow> add_node g f = (Inl IndexError, g))
   \<and> (offset g \<noteq> 0 \<longrightarrow> append_batch g h = (Inl AssertionError, g))"
proof (intro conjI impI)
  assume "i < - int (length (adjacency g)) \<or> int (length (adjacency g)) \<le> i"
  then show "add_edge g i j = (Inl IndexError, g)"
    by (intro add_edge_source_out_of_range py_position_None)
next
  assume a: "0 \<le> i \<and> i < int (length (adjacency g))
       \<and> (j < - int (length (adjacency g)) \<or> int (length (adjacency g)) \<le> j)"
  then have "py_position (length (adjacency g)) i = Some (nat i)"
    and "py_position (length (adjacency g)) j = None"
    by (simp_all add: py_position_nonneg py_position_None)
  then show "add_edge g i j = (Inl IndexError,
             g\<lparr>u_adjacency := (u_adjacency g)[view_base g + nat i := adjacency g ! nat i @ [j]]\<rparr>)"
    by (rule add_edge_target_out_of_range)
next
  assume "num_graphs g \<noteq> 1"
  then show "add_node g f = (Inl AssertionError, g)" by (simp add: add_node_def)
next
  assume "num_graphs g = 1
       \<and> (offset g < - int (length (graph_nodes g)) \<or> int (length (graph_nodes g)) \<le> offset g)"
  then show "add_node g f = (Inl IndexError, g)"
    by (simp add: add_node_def py_position_None)
next
  assume "offset g \<noteq> 0"
  then show "append_batch g h = (Inl AssertionError, g)" by (simp add: append_batch_def)
qed

theorem failed_mutation_at_entry_check_witness:
  "add_edge (single_graph [[1::int]]) 7 0 = (Inl IndexError, single_graph [[1]])
   \<and> add_edge (single_graph [[1::int]]) 0 5
       = (Inl IndexError, (single_graph [[1]])\<lparr>u_adjacency := [[5]]\<rparr>)
   \<and> add_node two_graphs_view [40] = (Inl AssertionError, two_graphs_view)
   \<and> add_node ((single_graph [[1::int]])\<lparr>offset := 3\<rparr>) [2]
       = (Inl IndexError, (single_graph [[1]])\<lparr>offset := 3\<rparr>)
   \<and> append_batch two_graphs_view edge_graph = (Inl AssertionError, two_graphs_view)"
proof -
  have l: "length (adjacency (single_graph [[1::int]])) = 1"
    by (simp add: adjacency_def single_graph_def)
  have b: "view_base (single_graph [[1::int]]) = 0" "adjacency (single_graph [[1::int]]) = [[]]"
    by (simp_all add: view_base_def adjacency_def single_graph_def)
  have 1: "add_edge (single_graph [[1::int]]) 7 0 = (Inl IndexError, single_graph [[1]])"
    using failed_mutation_at_entry_check[where i = 7 and g = "single_graph [[1::int]]" and j = 0,
        THEN conjunct1]
    by (simp add: l)
  have 2: "add_edge (single_graph [[1::int]]) 0 5
       = (Inl IndexError, (single_graph [[1]])\<lparr>u_adjacency := [[5]]\<rparr>)"
    using failed_mutation_at_entry_check[where i = 0 and g = "single_graph [[1::int]]" and j = 5,
        THEN conjunct2, THEN conjunct1]
    by (simp add: l b) (simp add: single_graph_def)
  have 3: "add_node two_graphs_view [40] = (Inl AssertionError, two_graphs_view)"
    using failed_mutation_at_entry_check[where g = two_graphs_view and f = "[40]",
        THEN conjunct2, THEN conjunct2, THEN conjunct1]
    by (simp add: two_graphs_view_def)
  have 4: "add_node ((single_graph [[1::int]])\<lparr>offset := 3\<rparr>) [2]
       = (Inl IndexError, (single_graph [[1]])\<lparr>offset := 3\<rparr>)"
    using failed_mutation_at_entry_check[where g = "(single_graph [[1::int]])\<lparr>offset := 3\<rparr>"
        and f = "[2]", THEN conjunct2, THEN conjunct2, THEN conjunct2, THEN conjunct1]
    by (simp add: single_graph_def)
  have 5: "append_batch two_graphs_view edge_graph = (Inl AssertionError, two_graphs_view)"
    using failed_mutation_at_entry_check[where g = two_graphs_view and h = edge_graph,
        THEN conjunct2, THEN conjunct2, THEN conjunct2, THEN conjunct2]
    by (simp add: two_graphs_view_def)
  show ?thesis using 1 2 3 4 5 by simp
qed


section \<open>Properties of the neighbourhood traversal\<close>

lemma map_raise_Inr:
  assumes "\<forall>x \<in> set xs. \<exists>y. f x = Inr y \<and> P x y"
  shows "\<exists>ys. map_raise f xs = Inr ys \<and> list_all2 P xs ys"
  using assms
proof (induction xs)
  case Nil
  then show ?case by simp
next
  case (Cons x xs)
  then obtain y where y: "f x = Inr y" "P x y" by auto
  from Cons obtain ys where ys: "map_raise f xs = Inr ys" "list_all2 P xs ys" by auto
  show ?case using y ys by simp
qed

lemma set_concat_list_all2:
  "list_all2 (\<lambda>x y. set y = F x) xs ys \<Longrightarrow> set (concat ys) = (\<Union>x \<in> set xs. F x)"
  by (induction xs ys rule: list_all2_induct) auto

lemma adjacency_in_range_nth:
  "adjacency_in_range adj \<Longrightarrow> k < length adj \<Longrightarrow> n \<in> set (adj ! k) \<Longrightarrow>
   0 \<le> n \<and> n < int (length adj)"
  by (auto simp: adjacency_in_range_def list_all_length in_set_conv_nth)

lemma traversal_expansion:
  assumes ordr: "\<forall>xs. set (list_of_set xs) = set xs"
      and wf: "adjacency_in_range (adjacency g)"
  shows "0 \<le> v \<Longrightarrow> v < int (length (adjacency g)) \<Longrightarrow>
         \<exists>ns. standard_node_traversal list_of_set d g v = Inr ns
              \<and> set ns = depth_expansion (adjacency g) d v"
proof (induction d arbitrary: v)
  case 0
  then show ?case by simp
next
  case (Suc d)
  let ?edges = "adjacency g ! nat v"
  let ?f = "\<lambda>n. if n \<noteq> v then standard_node_traversal list_of_set d g n else Inr []"
  let ?F = "\<lambda>n. if n \<noteq> v then depth_expansion (adjacency g) d n else {}"
  have pos: "py_position (length (adjacency g)) v = Some (nat v)"
    using Suc.prems by (simp add: py_position_def)
  have "\<forall>n \<in> set ?edges. \<exists>y. ?f n = Inr y \<and> set y = ?F n"
  proof
    fix n assume n: "n \<in> set ?edges"
    have "0 \<le> n \<and> n < int (length (adjacency g))"
      using adjacency_in_range_nth[OF wf _ n] Suc.prems by simp
    then show "\<exists>y. ?f n = Inr y \<and> set y = ?F n"
      using Suc.IH[of n] by auto
  qed
  from map_raise_Inr[OF this] obtain ys where
    ys: "map_raise ?f ?edges = Inr ys" "list_all2 (\<lambda>n y. set y = ?F n) ?edges ys"
    by blast
  have "set (concat ys) = (\<Union>n \<in> set ?edges. ?F n)"
    by (rule set_concat_list_all2[OF ys(2)])
  also have "\<dots> = (\<Union>n \<in> set ?edges - {v}. depth_expansion (adjacency g) d n)"
    by auto
  finally have c: "set (concat ys) = (\<Union>n \<in> set ?edges - {v}. depth_expansion (adjacency g) d n)" .
  show ?case
    using ordr c by (simp add: pos ys(1) Let_def)
qed

lemma depth_expansion_sets:
  assumes wf: "adjacency_in_range adj" and wf': "adjacency_in_range adj'"
      and eq: "map set adj' = map set adj"
  shows "0 \<le> v \<Longrightarrow> v < int (length adj) \<Longrightarrow> depth_expansion adj' d v = depth_expansion adj d v"
proof (induction d arbitrary: v)
  case 0
  then show ?case by simp
next
  case (Suc d)
  have len: "length adj' = length adj" using eq by (metis length_map)
  have k: "nat v < length adj" using Suc.prems by simp
  have "set (adj' ! nat v) = map set adj' ! nat v" using k len by simp
  also have "\<dots> = set (adj ! nat v)" using k by (simp add: eq)
  finally have s: "set (adj' ! nat v) = set (adj ! nat v)" .
  have "\<And>n. n \<in> set (adj ! nat v) \<Longrightarrow> depth_expansion adj' d n = depth_expansion adj d n"
    using adjacency_in_range_nth[OF wf k] Suc.IH by simp
  then show ?case by (simp add: s)
qed

lemma path_expansion:
  "depth_expansion (adjacency path_graph) 0 2 = {2}"
  "depth_expansion (adjacency path_graph) 1 2 = {1, 2, 3}"
  "depth_expansion (adjacency path_graph) 2 2 = {0, 1, 2, 3, 4}"
  by (auto simp: adjacency_def path_graph_def eval_nat_numeral)

text \<open>
  C4: on a graph whose adjacency entries are node indices, from a start node of the
  graph and for every depth \<open>d\<close>, the traversal returns, as a set and for every order in
  which \<open>list(set(...))\<close> may list a set, exactly the nodes of the recursion: the start node
  at depth 0; the start node, its direct neighbours and the expansion at depth \<open>d - 1\<close> of
  every neighbour other than the start node at depth \<open>d > 0\<close>. The set is the same for
  two graphs whose adjacency rows list the same neighbours in different orders. On the
  path graph 0 - 1 - 2 - 3 - 4 from node 2 it is \<open>{2}\<close> at depth 0, \<open>{1, 2, 3}\<close> at depth 1 and
  \<open>{0, 1, 2, 3, 4}\<close> at depth 2.
\<close>

theorem standard_node_traversal_expansion:
  assumes "\<forall>xs. set (list_of_set xs) = set xs"
  shows "(adjacency_in_range (adjacency g) \<and> 0 \<le> v \<and> v < int (length (adjacency g)) \<longrightarrow>
            (\<exists>ns. standard_node_traversal list_of_set d g v = Inr ns
                 \<and> set ns = depth_expansion (adjacency g) d v))
       \<and> (adjacency_in_range (adjacency g) \<and> adjacency_in_range (adjacency g')
            \<and> map set (adjacency g') = map set (adjacency g)
            \<and> 0 \<le> v \<and> v < int (length (adjacency g)) \<longrightarrow>
            (\<exists>ns ns'. standard_node_traversal list_of_set d g v = Inr ns
                 \<and> standard_node_traversal list_of_set d g' v = Inr ns' \<and> set ns' = set ns))
       \<and> (\<exists>ns. standard_node_traversal list_of_set 0 path_graph 2 = Inr ns \<and> set ns = {2})
       \<and> (\<exists>ns. standard_node_traversal list_of_set 1 path_graph 2 = Inr ns \<and> set ns = {1, 2, 3})
       \<and> (\<exists>ns. standard_node_traversal list_of_set 2 path_graph 2 = Inr ns
                 \<and> set ns = {0, 1, 2, 3, 4})"
proof (intro conjI impI)
  assume "adjacency_in_range (adjacency g) \<and> 0 \<le> v \<and> v < int (length (adjacency g))"
  then show "\<exists>ns. standard_node_traversal list_of_set d g v = Inr ns
                 \<and> set ns = depth_expansion (adjacency g) d v"
    using traversal_expansion[OF assms] by blast
next
  assume a: "adjacency_in_range (adjacency g) \<and> adjacency_in_range (adjacency g')
            \<and> map set (adjacency g') = map set (adjacency g)
            \<and> 0 \<le> v \<and> v < int (length (adjacency g))"
  then have len: "length (adjacency g') = length (adjacency g)" by (metis length_map)
  from a obtain ns where ns: "standard_node_traversal list_of_set d g v = Inr ns"
    "set ns = depth_expansion (adjacency g) d v"
    using traversal_expansion[OF assms, of g v d] by blast
  from a len obtain ns' where ns': "standard_node_traversal list_of_set d g' v = Inr ns'"
    "set ns' = depth_expansion (adjacency g') d v"
    using traversal_expansion[OF assms, of g' v d] by auto
  have "depth_expansion (adjacency g') d v = depth_expansion (adjacency g) d v"
    using a by (intro depth_expansion_sets) simp_all
  then show "\<exists>ns ns'. standard_node_traversal list_of_set d g v = Inr ns
                 \<and> standard_node_traversal list_of_set d g' v = Inr ns' \<and> set ns' = set ns"
    using ns ns' by simp
next
  have wf: "adjacency_in_range (adjacency path_graph)"
    and v: "(0::int) \<le> 2" "2 < int (length (adjacency path_graph))"
    by (simp_all add: adjacency_in_range_def adjacency_def path_graph_def)
  show "\<exists>ns. standard_node_traversal list_of_set 0 path_graph 2 = Inr ns \<and> set ns = {2}"
    using traversal_expansion[OF assms wf v, of 0] by (simp only: path_expansion)
  show "\<exists>ns. standard_node_traversal list_of_set 1 path_graph 2 = Inr ns \<and> set ns = {1, 2, 3}"
    using traversal_expansion[OF assms wf v, of 1] by (simp only: path_expansion)
  show "\<exists>ns. standard_node_traversal list_of_set 2 path_graph 2 = Inr ns
                 \<and> set ns = {0, 1, 2, 3, 4}"
    using traversal_expansion[OF assms wf v, of 2] by (simp only: path_expansion)
qed

theorem standard_node_traversal_expansion_witness:
  "(\<forall>xs :: int list. set (remdups xs) = set xs)
   \<and> adjacency_in_range (adjacency path_graph)
   \<and> adjacency_in_range (adjacency path_graph_reversed)
   \<and> map set (adjacency path_graph_reversed) = map set (adjacency path_graph)
   \<and> (\<exists>ns. standard_node_traversal remdups 2 path_graph 2 = Inr ns
           \<and> set ns = depth_expansion (adjacency path_graph) 2 2)
   \<and> (\<exists>ns ns'. standard_node_traversal remdups 2 path_graph 2 = Inr ns
           \<and> standard_node_traversal remdups 2 path_graph_reversed 2 = Inr ns'
           \<and> set ns' = set ns)"
proof -
  have r: "\<forall>xs :: int list. set (remdups xs) = set xs" by simp
  have wf: "adjacency_in_range (adjacency path_graph)"
    and wf': "adjacency_in_range (adjacency path_graph_reversed)"
    and eq: "map set (adjacency path_graph_reversed) = map set (adjacency path_graph)"
    and v: "(0::int) \<le> 2" "2 < int (length (adjacency path_graph))"
    by (auto simp: adjacency_in_range_def adjacency_def path_graph_def path_graph_reversed_def)
  note t = standard_node_traversal_expansion[OF r, of path_graph 2 2 path_graph_reversed]
  have 1: "\<exists>ns. standard_node_traversal remdups 2 path_graph 2 = Inr ns
           \<and> set ns = depth_expansion (adjacency path_graph) 2 2"
    using t[THEN conjunct1] wf v by blast
  have 2: "\<exists>ns ns'. standard_node_traversal remdups 2 path_graph 2 = Inr ns
           \<and> standard_node_traversal remdups 2 path_graph_reversed 2 = Inr ns'
           \<and> set ns' = set ns"
    using t[THEN conjunct2, THEN conjunct1] wf wf' eq v by blast
  show ?thesis using r wf wf' eq 1 2 by blast
qed


section \<open>Properties of NodeGraphNeighbourhood.forward\<close>

lemma torch_cat1_rows:
  assumes "torch_cat1 a b = Inr t"
  shows "length b = length a \<and> length t = length a
         \<and> (\<forall>i < length a. t ! i = a ! i @ b ! i)"
  using assms by (auto simp: torch_cat1_def split: if_splits)

lemma forward_over_augments:
  assumes "forward_over m g p include_self = (Inr (), g')"
  shows "\<exists>ns reduced. full_nodes m g p = Inr ns \<and> reducer m g ns = Inr reduced
           \<and> length reduced = length (u_node_tensor g)
           \<and> length (u_node_tensor g') = length (u_node_tensor g)
           \<and> (\<forall>i < length (u_node_tensor g).
                 u_node_tensor g' ! i = u_node_tensor g ! i @ reduced ! i)
           \<and> g' = g\<lparr>u_node_tensor := u_node_tensor g'\<rparr>"
  using assms
  by (auto simp: forward_over_def split: sum.splits dest!: torch_cat1_rows)

lemma traversal_depth_1:
  "standard_node_traversal f (Suc 0) g v =
     (case py_position (length (adjacency g)) v of None \<Rightarrow> Inl IndexError
      | Some k \<Rightarrow> (case map_raise (\<lambda>n. if n \<noteq> v then Inr [n] else Inr []) (adjacency g ! k) of
           Inl e \<Rightarrow> Inl e
         | Inr new_nodes \<Rightarrow> Inr (f ([v] @ adjacency g ! k @ concat new_nodes))))"
  by (simp add: Let_def split: option.splits cong: if_cong)

lemma forward_over_any_include_self:
  "forward_over m g p b = forward_over m g p c"
  by (simp add: forward_over_def)

text \<open>
  C8 as stated, refuted: \<open>forward\<close> has one argument besides the graph, \<open>include_self\<close>.
  On the graph of one node with the feature 1 and a reducer that returns 2, the call
  yields the node tensor with the row \<open>[1, 2]\<close> for \<open>include_self = True\<close> and for
  \<open>include_self = False\<close>: no call overwrites the feature vector of the node with the
  aggregated result \<open>[2]\<close>.
\<close>

theorem forward_never_replaces:
  "forward constant_module (single_graph [[1]]) True = (Inr (), single_graph [[1, 2]])
   \<and> forward constant_module (single_graph [[1]]) False = (Inr (), single_graph [[1, 2]])
   \<and> reducer constant_module (single_graph [[1]]) [[0]] = Inr [[2]]
   \<and> u_node_tensor (single_graph [[1, 2 :: int]]) \<noteq> [[2]]"
  by (simp add: forward_def forward_over_def full_nodes_def constant_module_def
      constant_reducer_def single_graph_def traversal_depth_1 adjacency_def py_position_def
      torch_cat1_def)

text \<open>
  C8, amended: \<open>forward\<close> has a single output mode. Whenever it returns, every row of the
  node tensor is the row it was before followed by the row of the aggregated result for
  that node, the number of rows and every other field of the graph are unchanged, and
  the argument \<open>include_self\<close> has no effect on the result. This holds on plain and on
  partitioned graphs.
\<close>

theorem forward_augments:
  "forward m g include_self = forward m g (\<not> include_self)
   \<and> forward_partitioned mp gp include_self = forward_partitioned mp gp (\<not> include_self)
   \<and> (forward m g include_self = (Inr (), g') \<longrightarrow>
        (\<exists>ns reduced. reducer m g ns = Inr reduced
           \<and> length reduced = length (u_node_tensor g)
           \<and> length (u_node_tensor g') = length (u_node_tensor g)
           \<and> (\<forall>i < length (u_node_tensor g).
                 u_node_tensor g' ! i = u_node_tensor g ! i @ reduced ! i)
           \<and> g' = g\<lparr>u_node_tensor := u_node_tensor g'\<rparr>))
   \<and> (forward_partitioned mp gp include_self = (Inr (), gp') \<longrightarrow>
        (\<exists>ns reduced. reducer mp gp ns = Inr reduced
           \<and> length reduced = length (u_node_tensor gp)
           \<and> length (u_node_tensor gp') = length (u_node_tensor gp)
           \<and> (\<forall>i < length (u_node_tensor gp).
                 u_node_tensor gp' ! i = u_node_tensor gp ! i @ reduced ! i)
           \<and> gp' = gp\<lparr>u_node_tensor := u_node_tensor gp'\<rparr>))"
proof (intro conjI impI)
  show "forward m g include_self = forward m g (\<not> include_self)"
    unfolding forward_def by (rule forward_over_any_include_self)
  show "forward_partitioned mp gp include_self = forward_partitioned mp gp (\<not> include_self)"
    unfolding forward_partitioned_def
    by (simp add: forward_over_any_include_self[of _ _ _ include_self "\<not> include_self"]
        split: option.splits)
next
  assume a: "forward m g include_self = (Inr (), g')"
  from forward_over_augments[OF a[unfolded forward_def]] show "\<exists>ns reduced. reducer m g ns = Inr reduced
           \<and> length reduced = length (u_node_tensor g)
           \<and> length (u_node_tensor g') = length (u_node_tensor g)
           \<and> (\<forall>i < length (u_node_tensor g).
                 u_node_tensor g' ! i = u_node_tensor g ! i @ reduced ! i)
           \<and> g' = g\<lparr>u_node_tensor := u_node_tensor g'\<rparr>"
    by blast
next
  assume "forward_partitioned mp gp include_self = (Inr (), gp')"
  then obtain p where p: "forward_over mp gp p include_self = (Inr (), gp')"
    by (auto simp: forward_partitioned_def split: option.splits)
  from forward_over_augments[OF p] show "\<exists>ns reduced. reducer mp gp ns = Inr reduced
           \<and> length reduced = length (u_node_tensor gp)
           \<and> length (u_node_tensor gp') = length (u_node_tensor gp)
           \<and> (\<forall>i < length (u_node_tensor gp).
                 u_node_tensor gp' ! i = u_node_tensor gp ! i @ reduced ! i)
           \<and> gp' = gp\<lparr>u_node_tensor := u_node_tensor gp'\<rparr>"
    by blast
qed

lemma forward_examples:
  "forward constant_module (single_graph [[1]]) True = (Inr (), single_graph [[1, 2]])"
  "forward_partitioned constant_module_partitioned partitioned_example True
     = (Inr (), partitioned_example\<lparr>u_node_tensor := [[1, 2], [3, 2]]\<rparr>)"
  by (simp_all add: forward_def forward_partitioned_def forward_over_def full_nodes_def
      constant_module_def constant_module_partitioned_def partitioned_example_def
      constant_reducer_def single_graph_def traversal_depth_1 adjacency_def py_position_def
      torch_cat1_def)

theorem forward_augments_witness:
  "forward constant_module (single_graph [[1]]) True = (Inr (), single_graph [[1, 2]])
   \<and> forward_partitioned constant_module_partitioned partitioned_example True
       = (Inr (), partitioned_example\<lparr>u_node_tensor := [[1, 2], [3, 2]]\<rparr>)
   \<and> (\<exists>ns reduced. reducer constant_module (single_graph [[1]]) ns = Inr reduced
         \<and> (\<forall>i < length (u_node_tensor (single_graph [[1::int]])).
               u_node_tensor (single_graph [[1, 2]]) ! i
                 = u_node_tensor (single_graph [[1]]) ! i @ reduced ! i))
   \<and> (\<exists>ns reduced. reducer constant_module_partitioned partitioned_example ns = Inr reduced
         \<and> (\<forall>i < length (u_node_tensor partitioned_example).
               u_node_tensor (partitioned_example\<lparr>u_node_tensor := [[1, 2], [3, 2]]\<rparr>) ! i
                 = u_node_tensor partitioned_example ! i @ reduced ! i))"
proof -
  note t = forward_augments[of constant_module "single_graph [[1]]" True
      constant_module_partitioned partitioned_example "single_graph [[1, 2]]"
      "partitioned_example\<lparr>u_node_tensor := [[1, 2], [3, 2]]\<rparr>"]
  have 1: "\<exists>ns reduced. reducer constant_module (single_graph [[1]]) ns = Inr reduced
         \<and> (\<forall>i < length (u_node_tensor (single_graph [[1::int]])).
               u_node_tensor (single_graph [[1, 2]]) ! i
                 = u_node_tensor (single_graph [[1]]) ! i @ reduced ! i)"
    using t[THEN conjunct2, THEN conjunct2, THEN conjunct1] forward_examples(1) by blast
  have 2: "\<exists>ns reduced. reducer constant_module_partitioned partitioned_example ns = Inr reduced
         \<and> (\<forall>i < length (u_node_tensor partitioned_example).
               u_node_tensor (partitioned_example\<lparr>u_node_tensor := [[1, 2], [3, 2]]\<rparr>) ! i
                 = u_node_tensor partitioned_example ! i @ reduced ! i)"
    using t[THEN conjunct2, THEN conjunct2, THEN conjunct2] forward_examples(2) by blast
  show ?thesis using 1 2 forward_examples by blast
qed


section \<open>Properties of the aggregation strategies\<close>

subsection \<open>NeighbourLinear\<close>

lemma affine_length: "Linear_ok l \<Longrightarrow> length (affine l x) = length (bias l)"
  by (simp add: affine_def Linear_ok_def)

lemma affine_nth:
  "Linear_ok l \<Longrightarrow> j < length (bias l) \<Longrightarrow> affine l x ! j = dot (weight l ! j) x + bias l ! j"
  by (simp add: affine_def Linear_ok_def)

lemma zip_index_map:
  "length xs = n \<Longrightarrow>
   map (\<lambda>(a, b). g a b) (zip xs (map f [0 ..< n])) = map (\<lambda>j. g (xs ! j) (f j)) [0 ..< n]"
  by (rule nth_equalityI) simp_all

lemma column_sum_relu_affine:
  assumes "Linear_ok l" "j < length (bias l)"
  shows "sum_list (map (\<lambda>r. r ! j) (map (map relu) (map (affine l) rs)))
         = sum_list (map (\<lambda>r. relu (dot (weight l ! j) r + bias l ! j)) rs)"
proof -
  have "\<And>r. map relu (affine l r) ! j = relu (dot (weight l ! j) r + bias l ! j)"
    using assms by (simp add: affine_length affine_nth)
  then show ?thesis by (simp add: comp_def)
qed

lemma identity_layer_ok: "Linear_ok identity_layer"
  by (simp add: Linear_ok_def identity_layer_def)

text \<open>
  C7 as stated, refuted: with the identity as linear layer, the own feature \<open>[0]\<close> and the
  two messages \<open>[1]\<close> and \<open>[-1]\<close>, \<open>reduce\<close> returns \<open>1/2\<close>, the mean of \<open>relu(1)\<close> and
  \<open>relu(-1)\<close>, whereas \<open>own + relu(linear(mean(messages)))\<close> is \<open>relu(0) = 0\<close>.
\<close>

theorem NeighbourLinear_reduce_differs_from_spec:
  "NeighbourLinear_reduce identity_layer [0] (Tensor2 1 [[1], [-1]]) = Inr (Tensor2 1 [[1 / 2]])
   \<and> spec_LinearNeighbour identity_layer [0] (Tensor2 1 [[1], [-1]]) = Inr (Tensor2 1 [[0]])
   \<and> NeighbourLinear_reduce identity_layer [0] (Tensor2 1 [[1], [-1]])
       \<noteq> spec_LinearNeighbour identity_layer [0] (Tensor2 1 [[1], [-1]])"
  by (simp add: NeighbourLinear_reduce_def spec_LinearNeighbour_def Linear_tensor2_def
      identity_layer_def affine_def dot_def relu_tensor2_def relu_def
      torch_mean_dim0_keepdim_def torch_mean_dim0_def add_vector_tensor2_def
      compatible_def broadcast_width_def broadcast_def)

text \<open>
  C7, amended: for every own feature \<open>x\<close> and every non-empty sequence of messages \<open>M\<close> of
  the widths the layer expects, \<open>reduce(x, M)\<close> is \<open>x + mean(relu(linear(m)))\<close> over the
  messages \<open>m\<close> of \<open>M\<close>: the linear map and the ReLU are applied to every message and the
  results are averaged. Component \<open>j\<close> of the result is \<open>x\<^sub>j\<close> plus the mean over the
  messages of \<open>relu(W\<^sub>j \<cdot> m + b\<^sub>j)\<close>; the result has the shape \<open>(1, width)\<close>.
\<close>

theorem NeighbourLinear_reduce_mean_of_relu:
  assumes "Linear_ok l" "width M = in_features l" "rows M \<noteq> []" "length x = length (bias l)"
  shows "NeighbourLinear_reduce l x M =
     Inr (Tensor2 (length x)
       [map (\<lambda>j. x ! j + sum_list (map (\<lambda>r. relu (dot (weight l ! j) r + bias l ! j)) (rows M))
                          / real (length (rows M)))
            [0 ..< length x]])"
proof -
  let ?T = "length (bias l)"
  let ?m = "map (\<lambda>j. sum_list (map (\<lambda>r. r ! j) (map (map relu) (map (affine l) (rows M))))
                        / real (length (rows M))) [0 ..< ?T]"
  have m: "?m = map (\<lambda>j. sum_list (map (\<lambda>r. relu (dot (weight l ! j) r + bias l ! j)) (rows M))
                        / real (length (rows M))) [0 ..< ?T]"
    using column_sum_relu_affine[OF assms(1)] by simp
  have 1: "Linear_tensor2 l M = Inr (Tensor2 ?T (map (affine l) (rows M)))"
    using assms(2) by (simp add: Linear_tensor2_def)
  have 2: "torch_mean_dim0_keepdim (relu_tensor2 (Tensor2 ?T (map (affine l) (rows M))))
           = Inr (Tensor2 ?T [?m])"
    using assms(3) by (simp add: torch_mean_dim0_keepdim_def torch_mean_dim0_def relu_tensor2_def)
  define mm where "mm = map (\<lambda>j. sum_list (map (\<lambda>r. relu (dot (weight l ! j) r + bias l ! j)) (rows M))
                        / real (length (rows M))) [0 ..< ?T]"
  have 3: "add_vector_tensor2 x (Tensor2 ?T [mm]) =
           Inr (Tensor2 ?T [map (\<lambda>(a, b). a + b) (zip x mm)])"
    using assms(4)
    by (simp add: add_vector_tensor2_def compatible_def broadcast_width_def broadcast_def mm_def)
  have 4: "map (\<lambda>(a, b). a + b) (zip x mm)
      = map (\<lambda>j. x ! j + sum_list (map (\<lambda>r. relu (dot (weight l ! j) r + bias l ! j)) (rows M))
                          / real (length (rows M))) [0 ..< ?T]"
    unfolding mm_def using zip_index_map[OF assms(4), of "(+)"] by simp
  have "NeighbourLinear_reduce l x M = add_vector_tensor2 x (Tensor2 ?T [mm])"
    unfolding NeighbourLinear_reduce_def 1 sum.case 2 m mm_def by simp
  then show ?thesis unfolding 3 4 using assms(4) by simp
qed

theorem NeighbourLinear_reduce_mean_of_relu_witness:
  "Linear_ok identity_layer \<and> width (Tensor2 1 [[1], [-1]]) = in_features identity_layer
   \<and> rows (Tensor2 1 [[1], [-1]]) \<noteq> [] \<and> length [0 :: real] = length (bias identity_layer)
   \<and> NeighbourLinear_reduce identity_layer [0] (Tensor2 1 [[1], [-1]]) = Inr (Tensor2 1 [[1 / 2]])"
proof -
  have h: "width (Tensor2 1 [[1], [-1]]) = in_features identity_layer"
    "rows (Tensor2 1 [[1], [-1]]) \<noteq> []" "length [0 :: real] = length (bias identity_layer)"
    by (simp_all add: identity_layer_def)
  from NeighbourLinear_reduce_mean_of_relu[OF identity_layer_ok h]
  have "NeighbourLinear_reduce identity_layer [0] (Tensor2 1 [[1], [-1]]) = Inr (Tensor2 1 [[1 / 2]])"
    by (simp add: identity_layer_def dot_def relu_def)
  then show ?thesis using identity_layer_ok h by simp
qed


subsection \<open>Empty neighbourhoods\<close>

lemma torch_sum_dim0_no_rows: "torch_sum_dim0 (Tensor2 c []) = Inr (replicate c 0)"
  by (simp add: torch_sum_dim0_def map_replicate_const)

lemma mul_tensor2_no_rows:
  "compatible a c \<Longrightarrow>
   mul_tensor2 (Tensor2 a []) (Tensor2 c []) = Inr (Tensor2 (broadcast_width a c) [])"
  by (simp add: mul_tensor2_def)

lemma NeighbourDotAttention_reduce_no_rows:
  assumes "NeighbourDotAttention_ok sz m" "length own = sz"
  shows "NeighbourDotAttention_reduce m own (Tensor2 sz []) = Inr (replicate sz 0)"
proof -
  from assms(1) have e: "Linear_ok (embedding m)" "in_features (embedding m) = sz"
      "length (bias (embedding m)) = sz"
    and l: "Linear_ok (attention_local m)" "in_features (attention_local m) = sz"
      "length (bias (attention_local m)) = 1"
    and n: "Linear_ok (attention_neighbour m)" "in_features (attention_neighbour m) = sz"
      "length (bias (attention_neighbour m)) = 1"
    by (simp_all add: NeighbourDotAttention_ok_def)
  have 1: "Linear_vector (embedding m) own = Inr (affine (embedding m) own)"
    using assms(2) e by (simp add: Linear_vector_def)
  have 2: "Linear_vector (attention_local m) (affine (embedding m) own)
           = Inr (affine (attention_local m) (affine (embedding m) own))"
    using e l by (simp add: Linear_vector_def affine_length)
  have t: "length (affine (attention_local m) (affine (embedding m) own)) = 1"
    using l by (simp add: affine_length)
  have 3: "Linear_tensor2 (embedding m) (Tensor2 sz []) = Inr (Tensor2 sz [])"
    using e by (simp add: Linear_tensor2_def)
  have 4: "Linear_tensor2 (attention_neighbour m) (Tensor2 sz []) = Inr (Tensor2 1 [])"
    using n by (simp add: Linear_tensor2_def)
  have 5: "add_vector_tensor2 (affine (attention_local m) (affine (embedding m) own)) (Tensor2 1 [])
           = Inr (Tensor2 1 [])"
    using t by (simp add: add_vector_tensor2_def compatible_def broadcast_width_def)
  have 6: "mul_tensor2 (softmax_dim1 (Tensor2 1 [])) (Tensor2 sz []) = Inr (Tensor2 sz [])"
    by (simp add: softmax_dim1_def mul_tensor2_def compatible_def broadcast_width_def)
  show ?thesis
    unfolding NeighbourDotAttention_reduce_def 1 sum.case 2 3 4 5 6 torch_sum_dim0_no_rows
    by (rule refl)
qed

lemma identity_attention_ok: "NeighbourDotAttention_ok 1 identity_attention"
  by (simp add: NeighbourDotAttention_ok_def identity_attention_def identity_layer_ok)
     (simp add: identity_layer_def)

text \<open>
  C2 as stated, refuted: on an empty sequence of messages the dot attention returns the
  zero vector and not the own feature \<open>[1]\<close>, and the mean reducer returns NaN and not
  the zero vector.
\<close>

theorem empty_neighbourhood_not_own:
  "NeighbourDotAttention_reduce identity_attention [1] (Tensor2 1 []) = Inr [0]
   \<and> NeighbourDotAttention_reduce identity_attention [1] (Tensor2 1 []) \<noteq> Inr [1]
   \<and> NeighbourMean_reduce [1] (Tensor2 1 []) = Inl NotANumber"
proof -
  have "NeighbourDotAttention_reduce identity_attention [1] (Tensor2 1 []) = Inr (replicate 1 0)"
    by (rule NeighbourDotAttention_reduce_no_rows[OF identity_attention_ok]) simp
  then have "NeighbourDotAttention_reduce identity_attention [1] (Tensor2 1 []) = Inr [0]"
    by simp
  then show ?thesis
    by (simp add: NeighbourMean_reduce_def NeighbourReducer_reduce_def torch_mean_dim0_def)
qed

text \<open>
  C2, amended: on an empty sequence of messages of width \<open>c\<close> no reducer has a case of its
  own. The sum reducer returns the zero vector of width \<open>c\<close>. The attention variants do
  not raise and return the zero vector of the width of the messages as well, not the own
  feature: the dot attention of size \<open>sz\<close> on an own feature of width \<open>sz\<close>, and the
  attention with a callable that returns weights of a compatible width.
\<close>

theorem empty_neighbourhood_gives_zero:
  "NeighbourSum_reduce own (Tensor2 c []) = Inr (replicate c 0)
   \<and> (NeighbourDotAttention_ok sz m \<and> length own = sz \<longrightarrow>
        NeighbourDotAttention_reduce m own (Tensor2 sz []) = Inr (replicate sz 0))
   \<and> (attention own (Tensor2 c []) = Inr (Tensor2 a []) \<and> compatible a c \<longrightarrow>
        NeighbourAttention_reduce attention own (Tensor2 c [])
          = Inr (replicate (broadcast_width a c) 0))"
  by (simp add: NeighbourSum_reduce_def NeighbourReducer_reduce_def torch_sum_dim0_no_rows
      NeighbourDotAttention_reduce_no_rows NeighbourAttention_reduce_def mul_tensor2_no_rows)

theorem empty_neighbourhood_gives_zero_witness:
  "NeighbourDotAttention_ok 1 identity_attention \<and> length [1 :: real] = 1
   \<and> NeighbourDotAttention_reduce identity_attention [1] (Tensor2 1 []) = Inr [0]
   \<and> compatible 1 1
   \<and> NeighbourAttention_reduce (\<lambda>own t. Inr (Tensor2 1 [])) [1] (Tensor2 1 []) = Inr [0]
   \<and> NeighbourSum_reduce [1] (Tensor2 1 []) = Inr [0]"
proof -
  note t = empty_neighbourhood_gives_zero[of "[1]" 1 1 identity_attention
      "\<lambda>own t. Inr (Tensor2 1 [])" 1]
  have c: "compatible 1 1" by (simp add: compatible_def)
  have 1: "NeighbourSum_reduce [1] (Tensor2 1 []) = Inr [0]"
    using t[THEN conjunct1] by simp
  have 2: "NeighbourDotAttention_reduce identity_attention [1] (Tensor2 1 []) = Inr [0]"
    using t[THEN conjunct2, THEN conjunct1] identity_attention_ok by simp
  have 3: "NeighbourAttention_reduce (\<lambda>own t. Inr (Tensor2 1 [])) [1] (Tensor2 1 []) = Inr [0]"
    using t[THEN conjunct2, THEN conjunct2] c by (simp add: broadcast_width_def)
  show ?thesis using 1 2 3 c identity_attention_ok by simp
qed


section \<open>Properties of the pooling module\<close>

lemma sum_list_pos:
  "\<forall>x \<in> set zs. 0 \<le> f x \<Longrightarrow> \<exists>x \<in> set zs. 0 < f x \<Longrightarrow> 0 < sum_list (map f zs :: real list)"
proof (induction zs)
  case Nil
  then show ?case by simp
next
  case (Cons z zs)
  have nn: "0 \<le> sum_list (map f zs)" using Cons.prems(1) by (auto intro!: sum_list_nonneg)
  show ?case
  proof (cases "0 < f z")
    case True
    then show ?thesis using nn by simp
  next
    case False
    then have "\<exists>x \<in> set zs. 0 < f x" using Cons.prems(2) by auto
    then have "0 < sum_list (map f zs)" using Cons.IH Cons.prems(1) by simp
    then show ?thesis using Cons.prems(1) by (simp add: add_nonneg_pos)
  qed
qed

lemma group_total_pos:
  assumes "length indices = length rws" "g \<in> set indices"
  shows "0 < group_total rws indices g (\<lambda>q. exp (q ! h))"
proof -
  from assms obtain i where i: "i < length indices" "indices ! i = g"
    by (auto simp: in_set_conv_nth)
  then have "(rws ! i, g) \<in> set (zip rws indices)"
    using assms(1) by (auto simp: set_zip)
  then have "\<exists>x \<in> set (zip rws indices). 0 < (case x of (r, g') \<Rightarrow> if g' = g then exp (r ! h) else 0)"
    by (intro bexI[of _ "(rws ! i, g)"]) simp_all
  moreover have "\<forall>x \<in> set (zip rws indices). 0 \<le> (case x of (r, g') \<Rightarrow> if g' = g then exp (r ! h) else 0)"
    by auto
  ultimately show ?thesis unfolding group_total_def by (rule sum_list_pos[rotated])
qed

lemma zip_map_zip:
  "length ys = length xs \<Longrightarrow> zip (map F (zip xs ys)) ys = map (\<lambda>p. (F p, snd p)) (zip xs ys)"
  by (induction xs ys rule: list_induct2') auto

lemma group_total_map:
  "length indices = length xs \<Longrightarrow>
   group_total (map F (zip xs indices)) indices g f
     = sum_list (map (\<lambda>p. if snd p = g then f (F p) else 0) (zip xs indices))"
  by (simp add: group_total_def zip_map_zip comp_def split_def cong: if_cong)

text \<open>
  The grouped softmax normalises within each group: the weights of the nodes that share a
  group id sum to 1, for every head.
\<close>

lemma scatter_softmax_group_sums_to_one:
  assumes sm: "scatter_softmax data indices = Inr w"
      and g: "g \<in> set indices" and h: "h < width data"
  shows "group_total (rows w) indices g (\<lambda>r. r ! h) = 1"
proof -
  have len: "length indices = length (rows data)"
    using sm by (auto simp: scatter_softmax_def split: if_splits)
  let ?zs = "zip (rows data) indices"
  let ?T = "\<lambda>g. group_total (rows data) indices g (\<lambda>q. exp (q ! h))"
  let ?F = "\<lambda>p. map (\<lambda>h. exp (fst p ! h)
                / group_total (rows data) indices (snd p) (\<lambda>q. exp (q ! h))) [0 ..< width data]"
  have w: "rows w = map ?F ?zs"
    using sm len by (auto simp: scatter_softmax_def split_beta)
  have T: "0 < ?T g" using group_total_pos[OF len g] .
  have "group_total (rows w) indices g (\<lambda>r. r ! h)
      = sum_list (map (\<lambda>p. if snd p = g then ?F p ! h else 0) ?zs)"
    unfolding w by (rule group_total_map[OF len])
  also have "\<dots> = sum_list (map (\<lambda>p. (if snd p = g then exp (fst p ! h) else 0) * inverse (?T g)) ?zs)"
    using h by (intro arg_cong[where f = sum_list] map_cong) (auto simp: divide_inverse)
  also have "\<dots> = sum_list (map (\<lambda>p. if snd p = g then exp (fst p ! h) else 0) ?zs) * inverse (?T g)"
    by (rule sum_list_mult_const)
  also have "sum_list (map (\<lambda>p. if snd p = g then exp (fst p ! h) else 0) ?zs) = ?T g"
    by (simp add: group_total_def split_def)
  also have "?T g * inverse (?T g) = 1" using T by simp
  finally show ?thesis .
qed

lemma affine_identity: "affine identity_layer [x] = [x]"
  by (simp add: affine_def identity_layer_def dot_def)

lemma products_example:
  assumes "g0 \<noteq> g1"
  shows "combine f identity_pool (Tensor2 1 [[1], [2]]) [g0, g1] =
     (case f (Tensor2 1 [[1], [2]]) of Inl e \<Rightarrow> Inl e
      | Inr result \<Rightarrow> Linear_tensor2 identity_layer result)"
proof -
  have il: "in_features identity_layer = 1" "length (bias identity_layer) = 1"
    by (simp_all add: identity_layer_def)
  have lin: "\<And>a b. Linear_tensor2 identity_layer (Tensor2 1 [[a], [b]]) = Inr (Tensor2 1 [[a], [b]])"
    by (simp add: Linear_tensor2_def il affine_identity)
  have mul: "\<And>a b c d. mul_tensor2 (Tensor2 1 [[a], [b]]) (Tensor2 1 [[c], [d]])
        = Inr (Tensor2 1 [[a * c], [b * d]])"
    by (simp add: mul_tensor2_def compatible_def broadcast_width_def broadcast_def)
  have sm: "\<And>a b. scatter_softmax (Tensor2 1 [[a], [b]]) [g0, g1] = Inr (Tensor2 1 [[1], [1]])"
    using assms by (simp add: scatter_softmax_def group_total_def)
  have wv: "weight_times_value 1 (Tensor2 1 [[1], [1]]) (Tensor2 1 [[1], [2]])
        = Inr (Tensor2 1 [[1], [2]])"
    by (simp add: weight_times_value_def)
  show ?thesis
    by (simp add: combine_def identity_pool_def lin map_tensor2_def mul sm wv del: One_nat_def
        split: sum.splits)
qed

lemma spec_example:
  "spec_pooling identity_pool (Tensor2 1 [[1], [2]]) [0, 1] = Inr (Tensor2 1 [[1], [2]])"
  "spec_pooling identity_pool (Tensor2 1 [[1], [2]]) [1, 0] = Inr (Tensor2 1 [[2], [1]])"
proof -
  have s: "sort (remdups [0, 1 :: int]) = [0, 1]" "sort (remdups [1, 0 :: int]) = [0, 1]"
    by simp_all
  show "spec_pooling identity_pool (Tensor2 1 [[1], [2]]) [0, 1] = Inr (Tensor2 1 [[1], [2]])"
    unfolding spec_pooling_def
    using products_example[of 0 1 "\<lambda>products. scatter_sum products [0, 1]"]
    by (simp add: scatter_sum_def group_total_def Linear_tensor2_def identity_layer_def
        affine_def dot_def)
  show "spec_pooling identity_pool (Tensor2 1 [[1], [2]]) [1, 0] = Inr (Tensor2 1 [[2], [1]])"
    unfolding spec_pooling_def
    using products_example[of 1 0 "\<lambda>products. scatter_sum products [1, 0]"]
    by (simp add: scatter_sum_def group_total_def Linear_tensor2_def identity_layer_def
        affine_def dot_def)
qed

text \<open>
  C3: the pooling is to return one row per non-empty group, in ascending order of the
  group ids, each row the attention-weighted sum of the value projections of the nodes of
  that group. \<open>combine\<close> gives the group ids to the softmax and not to the sum, so its
  result cannot follow the groups: for the two nodes with the features 1 and 2, each a
  group of its own, the products that reach the sum are the same whether the group ids
  are \<open>[0, 1]\<close> or \<open>[1, 0]\<close>, while the pooled rows of the specification are \<open>[1], [2]\<close> in
  the first case and \<open>[2], [1]\<close> in the second. Whatever \<open>scatter.sum\<close> does with its single
  argument, \<open>combine\<close> differs from the specification on one of the two inputs.
\<close>

theorem combine_ignores_groups:
  "\<not> (combine f identity_pool (Tensor2 1 [[1], [2]]) [0, 1]
        = spec_pooling identity_pool (Tensor2 1 [[1], [2]]) [0, 1]
      \<and> combine f identity_pool (Tensor2 1 [[1], [2]]) [1, 0]
        = spec_pooling identity_pool (Tensor2 1 [[1], [2]]) [1, 0])"
proof
  assume a: "combine f identity_pool (Tensor2 1 [[1], [2]]) [0, 1]
        = spec_pooling identity_pool (Tensor2 1 [[1], [2]]) [0, 1]
      \<and> combine f identity_pool (Tensor2 1 [[1], [2]]) [1, 0]
        = spec_pooling identity_pool (Tensor2 1 [[1], [2]]) [1, 0]"
  have "combine f identity_pool (Tensor2 1 [[1], [2]]) [0, 1]
      = combine f identity_pool (Tensor2 1 [[1], [2]]) [1, 0]"
    using products_example[of 0 1 f] products_example[of 1 0 f] by simp
  with a have "spec_pooling identity_pool (Tensor2 1 [[1], [2]]) [0, 1]
      = spec_pooling identity_pool (Tensor2 1 [[1], [2]]) [1, 0]" by simp
  then show False unfolding spec_example by simp
qed

end
